theory Spec2Isabelle
  imports Main "HOL-Library.AList"
begin

section \<open>Framework values and diagnostics\<close>

text \<open>
  The provider reads its inputs through the plugin framework's value types.
  A \<open>types.String\<close> or \<open>types.Bool\<close> is either null or a known value;
  \<open>ValueString\<close> of a null string is the empty string and \<open>ValueBool\<close> of a
  null bool is false. Errors are carried by their message text.
\<close>

type_synonym tf_string = "string option"
type_synonym tf_bool = "bool option"
type_synonym go_error = string
type_synonym duration = int

definition ValueString :: "tf_string \<Rightarrow> string" where
  "ValueString s = (case s of None \<Rightarrow> [] | Some v \<Rightarrow> v)"

definition ValueBool :: "tf_bool \<Rightarrow> bool" where
  "ValueBool b = (case b of None \<Rightarrow> False | Some v \<Rightarrow> v)"

definition BoolValue :: "bool \<Rightarrow> tf_bool" where
  "BoolValue b = Some b"

definition IsNull :: "'a option \<Rightarrow> bool" where
  "IsNull v = (v = None)"

datatype severity = SeverityError | SeverityWarning

datatype diagnostic = Diagnostic (Severity: severity) (Summary: string) (Detail: string)

definition HasError :: "diagnostic list \<Rightarrow> bool" where
  "HasError ds = list_ex (\<lambda>d. Severity d = SeverityError) ds"

definition Errors :: "diagnostic list \<Rightarrow> diagnostic list" where
  "Errors ds = filter (\<lambda>d. Severity d = SeverityError) ds"

text \<open>
  \<open>Diagnostics.Append\<close> adds the given diagnostics in order and leaves out one that the
  collection already holds. \<open>AddError\<close> and \<open>AddWarning\<close> append a single new
  diagnostic the same way.
\<close>

fun Append :: "diagnostic list \<Rightarrow> diagnostic list \<Rightarrow> diagnostic list" where
  "Append ds [] = ds"
| "Append ds (d # rest) = Append (if d \<in> set ds then ds else ds @ [d]) rest"

definition AddError :: "diagnostic list \<Rightarrow> string \<Rightarrow> string \<Rightarrow> diagnostic list" where
  "AddError ds summary detail = Append ds [Diagnostic SeverityError summary detail]"

definition AddWarning :: "diagnostic list \<Rightarrow> string \<Rightarrow> string \<Rightarrow> diagnostic list" where
  "AddWarning ds summary detail = Append ds [Diagnostic SeverityWarning summary detail]"

section \<open>Data model of the k3s harness resource\<close>

record InventoryDataSourceModel =
  Seed :: tf_string

text \<open>
  A feature of the inventory carries a \<open>Labels\<close> map from label name to label value.
\<close>

record Feature =
  Labels :: "string \<rightharpoonup> string"

text \<open>
  A Go map that the code ranges over is an association list: the list of its entries in the
  order the \<open>range\<close> statement yields them. A map that the code only looks keys up in
  (\<open>Labels\<close>) is a partial function.
\<close>

type_synonym ('k, 'v) go_map = "('k \<times> 'v) list"

section \<open>Skip policy: \<open>HarnessResource.ShouldSkip\<close>\<close>

text \<open>
  The inner loop of \<open>ShouldSkip\<close> ranges over the provider's runtime labels for one
  feature. A label that the feature has with another value sets \<open>skip\<close> and leaves the
  inner loop; a label that the feature lacks, or has with the same value, changes nothing.
\<close>

fun labels_loop :: "(string, string) go_map \<Rightarrow> (string \<rightharpoonup> string) \<Rightarrow> bool \<Rightarrow> bool" where
  "labels_loop [] featLabels skip = skip"
| "labels_loop ((pk, pv) # rest) featLabels skip =
     (case featLabels pk of
        Some fv \<Rightarrow> if fv \<noteq> pv then True else labels_loop rest featLabels skip
      | None \<Rightarrow> labels_loop rest featLabels skip)"

text \<open>The outer loop visits every feature; \<open>skip\<close> is never reset.\<close>

fun feats_loop :: "(string, string) go_map \<Rightarrow> 'a Feature_scheme list \<Rightarrow> bool \<Rightarrow> bool" where
  "feats_loop ls [] skip = skip"
| "feats_loop ls (feat # feats) skip =
     feats_loop ls feats (labels_loop ls (Labels feat) skip)"

text \<open>
  What \<open>ShouldSkip\<close> reads from the request: the results of
  \<open>req.Config.GetAttribute(inventory)\<close> and \<open>req.Plan.GetAttribute(id)\<close>, each the
  diagnostics of the call and the decoded value. The inventory's \<open>GetFeatures\<close> is a
  parameter: it returns an error or the features registered against the harness.
\<close>

record SkipRequest =
  ConfigInventory :: "diagnostic list \<times> InventoryDataSourceModel"
  PlanId :: "diagnostic list \<times> string"

type_synonym get_features =
  "InventoryDataSourceModel \<Rightarrow> string \<Rightarrow> go_error + Feature list"

definition ShouldSkip ::
  "get_features \<Rightarrow> (string, string) go_map \<Rightarrow> 'r SkipRequest_scheme \<Rightarrow> diagnostic list
     \<Rightarrow> bool \<times> diagnostic list" where
  "ShouldSkip getFeatures ls req diags =
     (case ConfigInventory req of (d1, invm) \<Rightarrow>
      if HasError d1
      then (False, AddError diags ''failed to add harness'' ''retrieving inventory'')
      else
      case PlanId req of (d2, hid) \<Rightarrow>
      if HasError d2
      then (False, AddError (Append diags (Errors d2))
                     ''failed to add harness'' ''getting harness id'')
      else
      case getFeatures invm hid of
        Inl err \<Rightarrow> (False, AddError diags ''failed to get features from harness'' err)
      | Inr feats \<Rightarrow>
          if length ls = 0 then (False, diags)
          else
            let skip = feats_loop ls feats False in
            if skip
            then (skip, AddWarning diags
                          (''skipping harness ['' @ hid @ ''] creation'')
                          ''given provider runtime labels do not match feature labels'')
            else (skip, diags))"

section \<open>Registries, networks, sandbox and the cluster options\<close>

record RegistryResourceAuthModel =
  Username :: tf_string
  Password :: tf_string
  AuthString :: tf_string

record RegistryResourceTlsModel =
  CertFile :: tf_string
  KeyFile :: tf_string
  CaFile :: tf_string

text \<open>
  A \<open>types.List\<close> or \<open>types.Map\<close> that the code decodes with \<open>ElementsAs\<close> is given by
  the outcome of that call: its diagnostics and the decoded Go value. A \<open>types.Object\<close>
  decoded with \<open>As\<close> is given the same way, or is null.
\<close>

record RegistryResourceMirrorModel =
  Endpoints :: "diagnostic list \<times> string list"

record RegistryResourceModel =
  Auth :: "RegistryResourceAuthModel option"
  Tls :: "RegistryResourceTlsModel option"
  Mirror :: "RegistryResourceMirrorModel option"

record ContainerResourceModelNetwork =
  NetworkName :: tf_string

record ContainerResourceMountModel =
  Source :: tf_string
  Destination :: tf_string

record HarnessK3sSandboxResourceModel =
  SandboxImage :: tf_string
  Privileged :: tf_bool
  Envs :: "diagnostic list \<times> (string, string) go_map"
  Mounts :: "ContainerResourceMountModel list"
  SandboxNetworks :: "(string, ContainerResourceModelNetwork) go_map"

text \<open>
  The resource model. \<open>Registries\<close> and \<open>Networks\<close> are Go maps that may be nil
  (\<open>None\<close>). \<open>Timeouts\<close> is the method \<open>data.Timeouts.Create\<close>: from the default
  duration to the resolved duration and the diagnostics of resolving it. The fields
  \<open>Id\<close> and \<open>Image\<close> of the Go struct are \<open>Id_attr\<close> and \<open>Image_attr\<close> here.
\<close>

record HarnessK3sResourceModel =
  Id_attr :: tf_string
  Name :: tf_string
  Inventory :: InventoryDataSourceModel
  Skipped :: tf_bool
  Image_attr :: tf_string
  DisableCni :: tf_bool
  DisableTraefik :: tf_bool
  DisableMetricsServer :: tf_bool
  Registries :: "(string, RegistryResourceModel) go_map option"
  Networks :: "(string, ContainerResourceModelNetwork) go_map option"
  Sandbox :: "(diagnostic list \<times> HarnessK3sSandboxResourceModel) option"
  Timeouts :: "duration \<Rightarrow> duration \<times> diagnostic list"

text \<open>Durations are nanoseconds, as \<open>time.Duration\<close> is.\<close>

definition Minute :: duration where
  "Minute = 60 * 1000000000"

definition defaultHarnessK3sCreateTimeout :: duration where
  "defaultHarnessK3sCreateTimeout = 5 * Minute"

text \<open>
  The options of the \<open>k3s\<close> package are recorded as the calls that build them, with
  their arguments. A parsed image reference and an orchestration handle are opaque.
\<close>

datatype reference = Reference string

datatype handle = Handle nat

datatype mount_type = TypeBind

record Mount =
  Mount_Type :: mount_type
  Mount_Source :: string
  Mount_Target :: string

datatype k3s_Option =
    WithCniDisabled bool
  | WithTraefikDisabled bool
  | WithMetricsServerDisabled bool
  | WithImageRef reference
  | WithSandboxImageRef reference
  | WithSandboxMounts Mount
  | WithSandboxNetworks string
  | WithSandboxEnv "(string, string) go_map"
  | WithAuthFromKeychain string
  | WithAuthFromStatic string string string string
  | WithRegistryMirror string "string list"
  | WithNetworks "string list"

section \<open>The provider store\<close>

record ProviderHarnessK3sModel =
  K3sRegistries :: "(string, RegistryResourceModel) go_map"
  K3sNetworks :: "(string, ContainerResourceModelNetwork) go_map"

record ProviderHarnessesModel =
  K3s :: "ProviderHarnessK3sModel option"

record ProviderResourceData =
  Harnesses :: "ProviderHarnessesModel option"

text \<open>
  The part of the store that \<open>Create\<close> uses: the runtime label filter, the provider-level
  configuration and the runtime registry \<open>harnesses\<close> from harness id to handle.
\<close>

record ProviderStore =
  labels :: "(string, string) go_map"
  providerResourceData :: ProviderResourceData
  harnesses :: "string \<rightharpoonup> handle"

text \<open>
  What \<open>Create\<close> calls outside this file: the image reference parser, \<open>filepath.Abs\<close>,
  the constructor \<open>k3s.New\<close>, the handle's \<open>Setup\<close> run under a context with the given
  timeout (an expired deadline is one of its errors), the inventory's \<open>GetFeatures\<close>,
  \<open>resp.State.Set\<close> (its diagnostics) and the formatting of a diagnostics slice.
\<close>

record CreateEnv =
  ParseReference :: "string \<Rightarrow> go_error + reference"
  filepath_Abs :: "string \<Rightarrow> go_error + string"
  k3s_New :: "string \<Rightarrow> k3s_Option list \<Rightarrow> go_error + handle"
  Setup :: "handle \<Rightarrow> duration \<Rightarrow> go_error option"
  GetFeatures :: get_features
  StateSet :: "HarnessK3sResourceModel \<Rightarrow> diagnostic list"
  Sprint_diags :: "diagnostic list \<Rightarrow> string"

record CreateRequest = SkipRequest +
  PlanGet :: "diagnostic list \<times> HarnessK3sResourceModel"

record CreateResponse =
  Diagnostics :: "diagnostic list"
  State :: "HarnessK3sResourceModel option"

text \<open>
  The outcome of \<open>Create\<close>: the response, the store, and the calls made to \<open>k3s.New\<close>,
  to the runtime registry's \<open>Set\<close> and to \<open>Setup\<close>, in order.
\<close>

datatype call =
    CallNew string "k3s_Option list"
  | CallSet string handle
  | CallSetup handle duration

record CreateOutcome =
  resp :: CreateResponse
  store :: ProviderStore
  calls :: "call list"

section \<open>Config builder: the steps of \<open>HarnessK3sResource.Create\<close>\<close>

text \<open>
  Each step returns \<open>Inl\<close> of the response diagnostics where \<open>Create\<close> returns early,
  and \<open>Inr\<close> of what the code carries on with otherwise.
\<close>

definition image_step ::
  "CreateEnv \<Rightarrow> HarnessK3sResourceModel \<Rightarrow> diagnostic list \<Rightarrow> k3s_Option list
     \<Rightarrow> diagnostic list + k3s_Option list" where
  "image_step env data diags kopts =
     (if \<not> IsNull (Image_attr data)
      then (case ParseReference env (ValueString (Image_attr data)) of
              Inl err \<Rightarrow> Inl (AddError diags ''invalid resource input''
                                 (''invalid image reference: '' @ err))
            | Inr ref \<Rightarrow> Inr (kopts @ [WithImageRef ref]))
      else Inr kopts)"

fun mounts_loop ::
  "CreateEnv \<Rightarrow> ContainerResourceMountModel list \<Rightarrow> k3s_Option list
     \<Rightarrow> go_error + k3s_Option list" where
  "mounts_loop env [] kopts = Inr kopts"
| "mounts_loop env (m # ms) kopts =
     (case filepath_Abs env (ValueString (Source m)) of
        Inl err \<Rightarrow> Inl err
      | Inr src \<Rightarrow>
          mounts_loop env ms
            (kopts @ [WithSandboxMounts
               \<lparr>Mount_Type = TypeBind, Mount_Source = src,
                Mount_Target = ValueString (Destination m)\<rparr>]))"

fun sandbox_networks_loop ::
  "(string, ContainerResourceModelNetwork) go_map \<Rightarrow> k3s_Option list \<Rightarrow> k3s_Option list" where
  "sandbox_networks_loop [] kopts = kopts"
| "sandbox_networks_loop ((k, n) # rest) kopts =
     sandbox_networks_loop rest (kopts @ [WithSandboxNetworks (ValueString (NetworkName n))])"

definition sandbox_step ::
  "CreateEnv \<Rightarrow> HarnessK3sResourceModel \<Rightarrow> diagnostic list \<Rightarrow> k3s_Option list
     \<Rightarrow> diagnostic list + diagnostic list \<times> k3s_Option list" where
  "sandbox_step env data diags kopts =
     (case Sandbox data of
        None \<Rightarrow> Inr (diags, kopts)
      | Some (ds, sandbox) \<Rightarrow>
          let diags1 = Append diags ds in
          if HasError diags1 then Inl diags1
          else
          case (if \<not> IsNull (SandboxImage sandbox)
                then (case ParseReference env (ValueString (SandboxImage sandbox)) of
                        Inl err \<Rightarrow> Inl (AddError diags1 ''invalid resource input''
                                           (''invalid sandbox image reference: '' @ err))
                      | Inr ref \<Rightarrow> Inr (kopts @ [WithSandboxImageRef ref]))
                else Inr kopts) of
            Inl r \<Rightarrow> Inl r
          | Inr kopts1 \<Rightarrow>
              (case mounts_loop env (Mounts sandbox) kopts1 of
                 Inl err \<Rightarrow> Inl (AddError diags1 ''invalid resource input''
                                    (''invalid mount source: '' @ err))
               | Inr kopts2 \<Rightarrow>
                   let kopts3 = sandbox_networks_loop (SandboxNetworks sandbox) kopts2 in
                   case Envs sandbox of (eds, envs) \<Rightarrow>
                   if HasError eds
                   then Inl (AddError diags1 ''invalid resource input''
                               (''invalid envs input: '' @ Sprint_diags env (Errors eds)))
                   else Inr (diags1, kopts3 @ [WithSandboxEnv envs])))"

text \<open>
  The two loops over the provider-level configuration: \<open>registries[k] = v\<close> for every
  entry of \<open>pc.Registries\<close>, and \<open>networks = append(networks, v.Name.ValueString())\<close> for
  every network. The second loop is also the one that collects the resource's own networks.
\<close>

fun registries_range ::
  "(string, RegistryResourceModel) go_map \<Rightarrow> (string, RegistryResourceModel) go_map
     \<Rightarrow> (string, RegistryResourceModel) go_map" where
  "registries_range [] registries = registries"
| "registries_range ((k, v) # rest) registries =
     registries_range rest (AList.update k v registries)"

fun networks_range ::
  "(string, ContainerResourceModelNetwork) go_map \<Rightarrow> string list \<Rightarrow> string list" where
  "networks_range [] networks = networks"
| "networks_range ((k, v) # rest) networks =
     networks_range rest (networks @ [ValueString (NetworkName v)])"

definition merge_provider ::
  "ProviderStore \<Rightarrow> HarnessK3sResourceModel
     \<Rightarrow> (string, RegistryResourceModel) go_map \<times> string list" where
  "merge_provider st data =
     (let registries = (case Registries data of None \<Rightarrow> [] | Some r \<Rightarrow> r);
          networks = (case Networks data of None \<Rightarrow> [] | Some ns \<Rightarrow> networks_range ns [])
      in case Harnesses (providerResourceData st) of
           None \<Rightarrow> (registries, networks)
         | Some hs \<Rightarrow>
             (case K3s hs of
                None \<Rightarrow> (registries, networks)
              | Some pc \<Rightarrow>
                  (registries_range (K3sRegistries pc) registries,
                   networks_range (K3sNetworks pc) networks)))"

text \<open>
  The loop over the merged registries. \<open>None\<close> is the early return on a mirror whose
  endpoints do not decode. Go leaves the order of a \<open>range\<close> over a map open; the order
  of the list stands for it, and the statements about the options below hold for every
  order.
\<close>

definition auth_option ::
  "string \<Rightarrow> RegistryResourceModel \<Rightarrow> k3s_Option list \<Rightarrow> k3s_Option list" where
  "auth_option rname rdata kopts =
     (case Auth rdata of
        None \<Rightarrow> kopts
      | Some a \<Rightarrow>
          if IsNull (AuthString a) \<and> IsNull (Password a) \<and> IsNull (Username a)
          then kopts @ [WithAuthFromKeychain rname]
          else kopts @ [WithAuthFromStatic rname (ValueString (Username a))
                          (ValueString (Password a)) (ValueString (AuthString a))])"

fun registries_loop ::
  "(string, RegistryResourceModel) go_map \<Rightarrow> k3s_Option list \<Rightarrow> k3s_Option list option" where
  "registries_loop [] kopts = Some kopts"
| "registries_loop ((rname, rdata) # rest) kopts =
     (let kopts1 = auth_option rname rdata kopts in
      case Mirror rdata of
        None \<Rightarrow> registries_loop rest kopts1
      | Some m \<Rightarrow>
          (case Endpoints m of (ds, endpoints) \<Rightarrow>
             if HasError ds then None
             else registries_loop rest (kopts1 @ [WithRegistryMirror rname endpoints])))"

text \<open>
  Lines 229 to 329: from the three toggles to \<open>WithNetworks\<close>. The variable
  \<open>registries\<close> is the map \<open>data.Registries\<close> itself when that is not nil, so the
  provider's entries are written into \<open>data\<close> too; the step returns the resulting \<open>data\<close>.
\<close>

definition build_kopts ::
  "CreateEnv \<Rightarrow> ProviderStore \<Rightarrow> HarnessK3sResourceModel \<Rightarrow> diagnostic list
     \<Rightarrow> diagnostic list + diagnostic list \<times> k3s_Option list \<times> HarnessK3sResourceModel" where
  "build_kopts env st data diags =
     (let kopts = [WithCniDisabled (ValueBool (DisableCni data)),
                   WithTraefikDisabled (ValueBool (DisableTraefik data)),
                   WithMetricsServerDisabled (ValueBool (DisableMetricsServer data))]
      in case image_step env data diags kopts of
           Inl r \<Rightarrow> Inl r
         | Inr kopts1 \<Rightarrow>
             (case sandbox_step env data diags kopts1 of
                Inl r \<Rightarrow> Inl r
              | Inr (diags1, kopts2) \<Rightarrow>
                  (case merge_provider st data of (registries, networks) \<Rightarrow>
                     let data1 = (case Registries data of
                                    None \<Rightarrow> data
                                  | Some r \<Rightarrow> data\<lparr>Registries := Some registries\<rparr>)
                     in case registries_loop registries kopts2 of
                          None \<Rightarrow> Inl (AddError diags1
                                          ''failed to convert mirror endpoints'' ''...'')
                        | Some kopts3 \<Rightarrow>
                            Inr (diags1, kopts3 @ [WithNetworks networks], data1))))"

text \<open>Lines 331 to 348: construct the handle, register it, run \<open>Setup\<close>, save the state.\<close>

definition run_harness ::
  "CreateEnv \<Rightarrow> ProviderStore \<Rightarrow> CreateResponse \<Rightarrow> duration \<Rightarrow> diagnostic list
     \<Rightarrow> k3s_Option list \<Rightarrow> HarnessK3sResourceModel \<Rightarrow> CreateOutcome" where
  "run_harness env st rsp timeout diags kopts data =
     (let hid = ValueString (Id_attr data) in
      case k3s_New env hid kopts of
        Inl err \<Rightarrow>
          \<lparr>resp = rsp\<lparr>Diagnostics := AddError diags ''failed to initialize k3s harness'' err\<rparr>,
           store = st, calls = [CallNew hid kopts]\<rparr>
      | Inr harness \<Rightarrow>
          let st1 = st\<lparr>harnesses := (harnesses st)(hid \<mapsto> harness)\<rparr> in
          (case Setup env harness timeout of
             Some err \<Rightarrow>
               \<lparr>resp = rsp\<lparr>Diagnostics := AddError diags ''failed to setup harness'' err\<rparr>,
                store = st1,
                calls = [CallNew hid kopts, CallSet hid harness, CallSetup harness timeout]\<rparr>
           | None \<Rightarrow>
               let sds = StateSet env data in
               \<lparr>resp = \<lparr>Diagnostics = Append diags sds,
                        State = (if HasError sds then State rsp else Some data)\<rparr>,
                store = st1,
                calls = [CallNew hid kopts, CallSet hid harness, CallSetup harness timeout]\<rparr>))"

text \<open>Lines 223 to 349: what \<open>Create\<close> does for a harness that is not skipped.\<close>

definition Create_unskipped ::
  "CreateEnv \<Rightarrow> ProviderStore \<Rightarrow> HarnessK3sResourceModel \<Rightarrow> CreateResponse \<Rightarrow> CreateOutcome" where
  "Create_unskipped env st data rsp =
     (case Timeouts data defaultHarnessK3sCreateTimeout of (timeout, tds) \<Rightarrow>
        let diags = Append (Diagnostics rsp) tds in
        case build_kopts env st data diags of
          Inl r \<Rightarrow> \<lparr>resp = rsp\<lparr>Diagnostics := r\<rparr>, store = st, calls = []\<rparr>
        | Inr (diags1, kopts, data1) \<Rightarrow> run_harness env st rsp timeout diags1 kopts data1)"

text \<open>\<open>HarnessK3sResource.Create\<close>.\<close>

definition Create ::
  "CreateEnv \<Rightarrow> ProviderStore \<Rightarrow> CreateRequest \<Rightarrow> CreateResponse \<Rightarrow> CreateOutcome" where
  "Create env st req rsp =
     (case PlanGet req of (pds, data0) \<Rightarrow>
        let rsp1 = rsp\<lparr>Diagnostics := Append (Diagnostics rsp) pds\<rparr> in
        if HasError (Diagnostics rsp1) then \<lparr>resp = rsp1, store = st, calls = []\<rparr>
        else
        case ShouldSkip (GetFeatures env) (labels st) req (Diagnostics rsp1) of
          (skipped, sdiags) \<Rightarrow>
        let rsp2 = rsp1\<lparr>Diagnostics := sdiags\<rparr> in
        if HasError (Diagnostics rsp2) then \<lparr>resp = rsp2, store = st, calls = []\<rparr>
        else
        let data = data0\<lparr>Skipped := BoolValue skipped\<rparr> in
        if ValueBool (Skipped data)
        then let sds = StateSet env data in
             \<lparr>resp = \<lparr>Diagnostics = Append (Diagnostics rsp2) sds,
                      State = (if HasError sds then State rsp2 else Some data)\<rparr>,
              store = st, calls = []\<rparr>
        else Create_unskipped env st data rsp2)"

section \<open>Example inputs\<close>

text \<open>
  A resource with no image, no sandbox, no registries and no networks of its own, whose
  timeout resolves to the default without diagnostics; a request that decodes without
  diagnostics; and an environment in which every outside call succeeds and the inventory
  holds no feature for the harness.
\<close>

definition example_data :: HarnessK3sResourceModel where
  "example_data =
     \<lparr>Id_attr = Some ''h-abc'', Name = Some ''h'', Inventory = \<lparr>Seed = Some ''seed''\<rparr>,
      Skipped = None, Image_attr = None, DisableCni = Some False,
      DisableTraefik = Some True, DisableMetricsServer = Some True,
      Registries = None, Networks = None, Sandbox = None,
      Timeouts = (\<lambda>d. (d, []))\<rparr>"

definition example_req :: CreateRequest where
  "example_req =
     \<lparr>ConfigInventory = ([], \<lparr>Seed = Some ''seed''\<rparr>), PlanId = ([], ''h-abc''),
      PlanGet = ([], example_data)\<rparr>"

definition example_env :: CreateEnv where
  "example_env =
     \<lparr>ParseReference = (\<lambda>s. if s = [] then Inl ''empty reference'' else Inr (Reference s)),
      filepath_Abs = (\<lambda>s. Inr (''/work/'' @ s)),
      k3s_New = (\<lambda>hid kopts. Inr (Handle 0)),
      Setup = (\<lambda>h t. None),
      GetFeatures = (\<lambda>i h. Inr []),
      StateSet = (\<lambda>d. []),
      Sprint_diags = (\<lambda>ds. concat (map Summary ds))\<rparr>"

definition example_store :: ProviderStore where
  "example_store =
     \<lparr>labels = [], providerResourceData = \<lparr>Harnesses = None\<rparr>, harnesses = Map.empty\<rparr>"

definition example_resp :: CreateResponse where
  "example_resp = \<lparr>Diagnostics = [], State = None\<rparr>"

text \<open>The two features of the specification's skip examples.\<close>

definition feature_dev :: Feature where
  "feature_dev = \<lparr>Labels = [''env'' \<mapsto> ''dev'']\<rparr>"

definition feature_unlabelled :: Feature where
  "feature_unlabelled = \<lparr>Labels = Map.empty\<rparr>"

section \<open>Auxiliary notions and further example inputs\<close>

text \<open>The two options that carry registry credentials.\<close>

fun is_auth_option :: "k3s_Option \<Rightarrow> bool" where
  "is_auth_option (WithAuthFromKeychain n) = True"
| "is_auth_option (WithAuthFromStatic n u p s) = True"
| "is_auth_option opt = False"

text \<open>
  The registry example of the specification: the resource declares registries \<open>a\<close> and
  \<open>c\<close>, the provider declares \<open>a\<close> and \<open>b\<close>; the resource declares network \<open>n1\<close>,
  the provider \<open>n1\<close> and \<open>n2\<close>.
\<close>

definition registry_X :: RegistryResourceModel where
  "registry_X = \<lparr>Auth = Some \<lparr>Username = None, Password = None, AuthString = None\<rparr>,
                  Tls = None, Mirror = None\<rparr>"

definition registry_Y :: RegistryResourceModel where
  "registry_Y = \<lparr>Auth = Some \<lparr>Username = Some ''u'', Password = None, AuthString = None\<rparr>,
                  Tls = None, Mirror = None\<rparr>"

definition registry_Z :: RegistryResourceModel where
  "registry_Z = \<lparr>Auth = None, Tls = None,
                  Mirror = Some \<lparr>Endpoints = ([], [''https://mirror.example''])\<rparr>\<rparr>"

definition merge_data :: HarnessK3sResourceModel where
  "merge_data = example_data
     \<lparr>Registries := Some [(''a'', registry_X), (''c'', registry_X)],
      Networks := Some [(''net'', \<lparr>NetworkName = Some ''n1''\<rparr>)]\<rparr>"

definition merge_k3s :: ProviderHarnessK3sModel where
  "merge_k3s =
     \<lparr>K3sRegistries = [(''a'', registry_Y), (''b'', registry_Z)],
      K3sNetworks = [(''x'', \<lparr>NetworkName = Some ''n1''\<rparr>), (''y'', \<lparr>NetworkName = Some ''n2''\<rparr>)]\<rparr>"

definition merge_store :: ProviderStore where
  "merge_store = example_store
     \<lparr>providerResourceData := \<lparr>Harnesses = Some \<lparr>K3s = Some merge_k3s\<rparr>\<rparr>\<rparr>"

definition merge_req :: CreateRequest where
  "merge_req = example_req\<lparr>PlanGet := ([], merge_data)\<rparr>"

definition merge_kopts :: "k3s_Option list" where
  "merge_kopts =
     [WithCniDisabled False, WithTraefikDisabled True, WithMetricsServerDisabled True,
      WithAuthFromStatic ''a'' ''u'' [] [],
      WithAuthFromKeychain ''c'',
      WithRegistryMirror ''b'' [''https://mirror.example''],
      WithNetworks [''n1'', ''n1'', ''n2'']]"

section \<open>Planning: \<open>HarnessResource.ModifyPlan\<close>\<close>

text \<open>
  What \<open>ModifyPlan\<close> reads from the request: whether the prior state is null, and the
  results of \<open>req.Config.GetAttribute\<close> for \<open>inventory\<close> and \<open>name\<close>. The response
  holds the diagnostics and the planned \<open>id\<close> attribute once it has been set.
\<close>

record ModifyPlanRequest =
  StateRawIsNull :: bool
  PlanConfigInventory :: "diagnostic list \<times> InventoryDataSourceModel"
  ConfigName :: "diagnostic list \<times> string"

record ModifyPlanResponse =
  PlanDiagnostics :: "diagnostic list"
  PlanIdAttr :: "string option"

text \<open>\<open>fmt.Sprintf("%s-%s", name, invEnc)\<close>.\<close>

definition harness_id :: "string \<Rightarrow> string \<Rightarrow> string" where
  "harness_id name invEnc = name @ ''-'' @ invEnc"

text \<open>
  \<open>ModifyPlan\<close> takes the store's \<open>Encode\<close>, the outcome of \<open>resp.Plan.SetAttribute\<close> for
  the id, and the inventory's \<open>AddHarness\<close> over an inventory state, as parameters.
  \<open>AddHarness\<close> returns Go's pair \<open>(added, err)\<close> and the new inventory state. The result
  is the response, the inventory state and the messages logged at level Info.
\<close>

definition ModifyPlan ::
  "(string \<Rightarrow> go_error + string) \<Rightarrow> (string \<Rightarrow> diagnostic list)
     \<Rightarrow> ('i \<Rightarrow> InventoryDataSourceModel \<Rightarrow> string \<Rightarrow> (bool \<times> go_error option) \<times> 'i)
     \<Rightarrow> 'i \<Rightarrow> ModifyPlanRequest \<Rightarrow> ModifyPlanResponse
     \<Rightarrow> ModifyPlanResponse \<times> 'i \<times> string list" where
  "ModifyPlan encode setAttribute addHarness invState req rsp =
     (if \<not> StateRawIsNull req then (rsp, invState, [])
      else
      case PlanConfigInventory req of (d1, invm) \<Rightarrow>
      if HasError d1
      then (rsp\<lparr>PlanDiagnostics :=
                   AddError (PlanDiagnostics rsp) ''failed to add harness'' ''retrieving inventory''\<rparr>,
            invState, [])
      else
      case ConfigName req of (d2, name) \<Rightarrow>
      if HasError d2
      then (rsp\<lparr>PlanDiagnostics :=
                   AddError (Append (PlanDiagnostics rsp) (Errors d2))
                     ''failed to add harness'' ''getting harness name''\<rparr>,
            invState, [])
      else
      case encode (ValueString (Seed invm)) of
        Inl err \<Rightarrow>
          (rsp\<lparr>PlanDiagnostics :=
                  AddError (PlanDiagnostics rsp) ''failed to add harness'' ''encoding harness id''\<rparr>,
           invState, [])
      | Inr invEnc \<Rightarrow>
          let hid = harness_id name invEnc;
              d3 = setAttribute hid
          in if HasError d3
             then (rsp\<lparr>PlanDiagnostics :=
                          AddError (Append (PlanDiagnostics rsp) (Errors d3))
                            ''failed to set harness id'' ''...''\<rparr>,
                   invState, [])
             else
             let rsp1 = rsp\<lparr>PlanIdAttr := Some hid\<rparr> in
             case addHarness invState invm hid of ((added, err), invState1) \<Rightarrow>
             let rsp2 = (case err of
                           None \<Rightarrow> rsp1
                         | Some e \<Rightarrow> rsp1\<lparr>PlanDiagnostics :=
                                             AddError (PlanDiagnostics rsp1)
                                               ''failed to add harness'' e\<rparr>)
             in (rsp2, invState1,
                 if added
                 then [''Harness.ModifyPlan() | harness ['' @ hid @ ''] added to inventory'']
                 else []))"

section \<open>The inventory\<close>

text \<open>
  Modelled from the spec: the inventory's backing store (package \<open>internal/inventory\<close> is
  not among the sources). Per seed, the harnesses registered and the features of each; the
  entry of a seed that was never referred to is empty. \<open>Fault\<close> is the error of a failing
  backing store.
\<close>

record InventoryStore =
  Fault :: "go_error option"
  Entries :: "string \<Rightarrow> (string \<rightharpoonup> Feature list)"

text \<open>
  Modelled from the spec: \<open>AddHarness\<close>, an idempotent insert that reports whether the
  harness was newly added and fails only on a backing-store error.
\<close>

definition AddHarness ::
  "InventoryStore \<Rightarrow> InventoryDataSourceModel \<Rightarrow> string
     \<Rightarrow> (bool \<times> go_error option) \<times> InventoryStore" where
  "AddHarness s invm h =
     (case Fault s of
        Some e \<Rightarrow> ((False, Some e), s)
      | None \<Rightarrow>
          let seed = ValueString (Seed invm) in
          (case Entries s seed h of
             Some fs \<Rightarrow> ((False, None), s)
           | None \<Rightarrow>
               ((True, None),
                s\<lparr>Entries := (Entries s)(seed := (Entries s seed)(h \<mapsto> []))\<rparr>)))"

text \<open>
  Modelled from the spec: \<open>GetFeatures\<close>, the features registered against the harness,
  the empty list if there are none, and an error only on a backing-store error.
\<close>

definition GetFeatures_of :: "InventoryStore \<Rightarrow> get_features" where
  "GetFeatures_of s invm h =
     (case Fault s of
        Some e \<Rightarrow> Inl e
      | None \<Rightarrow>
          Inr (case Entries s (ValueString (Seed invm)) h of None \<Rightarrow> [] | Some fs \<Rightarrow> fs))"

text \<open>A plan request for harness \<open>h\<close> in the inventory of seed \<open>seed\<close>, and an encoder.\<close>

definition example_plan_req :: ModifyPlanRequest where
  "example_plan_req =
     \<lparr>StateRawIsNull = True, PlanConfigInventory = ([], \<lparr>Seed = Some ''seed''\<rparr>),
      ConfigName = ([], ''h'')\<rparr>"

definition example_plan_resp :: ModifyPlanResponse where
  "example_plan_resp = \<lparr>PlanDiagnostics = [], PlanIdAttr = None\<rparr>"

definition example_encode :: "string \<Rightarrow> go_error + string" where
  "example_encode seed = (if seed = [] then Inl ''empty seed'' else Inr (rev seed))"

definition example_inventory :: InventoryStore where
  "example_inventory = \<lparr>Fault = None, Entries = (\<lambda>seed. Map.empty)\<rparr>"

text \<open>
  A runtime filter \<open>env = prod\<close> over an inventory whose one feature is labelled
  \<open>env = dev\<close>; and an environment whose \<open>Setup\<close> runs into its deadline.
\<close>

definition skip_env :: CreateEnv where
  "skip_env = example_env\<lparr>GetFeatures := (\<lambda>i h. Inr [feature_dev])\<rparr>"

definition skip_store :: ProviderStore where
  "skip_store = example_store\<lparr>labels := [(''env'', ''prod'')]\<rparr>"

definition deadline_env :: CreateEnv where
  "deadline_env = example_env\<lparr>Setup := (\<lambda>h t. Some ''context deadline exceeded'')\<rparr>"

text \<open>
  A sandbox with one relative mount; and timeouts whose resolution reports an error and
  falls back to the default.
\<close>

definition example_sandbox :: HarnessK3sSandboxResourceModel where
  "example_sandbox =
     \<lparr>SandboxImage = Some ''cgr.dev/chainguard/kubectl:latest-dev'', Privileged = Some False,
      Envs = ([], []), Mounts = [\<lparr>Source = Some ''data'', Destination = Some ''/data''\<rparr>],
      SandboxNetworks = []\<rparr>"

definition sandbox_req :: CreateRequest where
  "sandbox_req = example_req\<lparr>PlanGet := ([], example_data\<lparr>Sandbox := Some ([], example_sandbox)\<rparr>)\<rparr>"

definition bad_timeouts :: "duration \<Rightarrow> duration \<times> diagnostic list" where
  "bad_timeouts d = (d, [Diagnostic SeverityError ''Timeout Cannot Be Parsed'' ''create''])"

definition bad_timeouts_req :: CreateRequest where
  "bad_timeouts_req = example_req\<lparr>PlanGet := ([], example_data\<lparr>Timeouts := bad_timeouts\<rparr>)\<rparr>"

definition bad_timeouts_sandbox_req :: CreateRequest where
  "bad_timeouts_sandbox_req =
     example_req\<lparr>PlanGet := ([], example_data\<lparr>Sandbox := Some ([], example_sandbox),
                                               Timeouts := bad_timeouts\<rparr>)\<rparr>"

definition sandbox_kopts :: "k3s_Option list" where
  "sandbox_kopts =
     [WithCniDisabled False, WithTraefikDisabled True, WithMetricsServerDisabled True,
      WithSandboxImageRef (Reference ''cgr.dev/chainguard/kubectl:latest-dev''),
      WithSandboxMounts \<lparr>Mount_Type = TypeBind, Mount_Source = ''/work/data'',
                          Mount_Target = ''/data''\<rparr>,
      WithSandboxEnv [], WithNetworks []]"

text \<open>
  Inputs that fail validation: an empty harness image reference, an empty sandbox image
  reference, and an environment in which the working directory cannot be read.
\<close>

definition bad_image_req :: CreateRequest where
  "bad_image_req = example_req\<lparr>PlanGet := ([], example_data\<lparr>Image_attr := Some []\<rparr>)\<rparr>"

definition bad_sandbox_image_req :: CreateRequest where
  "bad_sandbox_image_req =
     example_req\<lparr>PlanGet :=
       ([], example_data\<lparr>Sandbox := Some ([], example_sandbox\<lparr>SandboxImage := Some []\<rparr>)\<rparr>)\<rparr>"

definition no_cwd_env :: CreateEnv where
  "no_cwd_env = example_env\<lparr>filepath_Abs := (\<lambda>s. Inl ''getwd: no such file or directory'')\<rparr>"

text \<open>
  The request with the diagnostics of the timeout resolution left out and the resolved
  duration kept.
\<close>

definition without_timeout_diagnostics :: "CreateRequest \<Rightarrow> CreateRequest" where
  "without_timeout_diagnostics req =
     req\<lparr>PlanGet :=
       (fst (PlanGet req),
        (snd (PlanGet req))\<lparr>Timeouts := (\<lambda>d. (fst (Timeouts (snd (PlanGet req)) d), []))\<rparr>)\<rparr>"

section \<open>Properties of the diagnostics\<close>

lemma set_Append: "set (Append ds new) = set ds \<union> set new"
  by (induction new arbitrary: ds) auto

lemma HasError_set: "HasError ds \<longleftrightarrow> (\<exists>d \<in> set ds. Severity d = SeverityError)"
  by (simp add: HasError_def list_ex_iff)

lemma HasError_Append: "HasError (Append ds new) \<longleftrightarrow> HasError ds \<or> HasError new"
  by (auto simp: HasError_set set_Append)

lemma HasError_AddError: "HasError (AddError ds s d)"
  unfolding AddError_def HasError_Append by (simp add: HasError_def)

lemma HasError_AddWarning: "HasError (AddWarning ds s d) \<longleftrightarrow> HasError ds"
  unfolding AddWarning_def HasError_Append by (simp add: HasError_def)

lemma AddError_mem: "Diagnostic SeverityError s d \<in> set (AddError ds s d)"
  by (simp add: AddError_def set_Append)

section \<open>The skip policy\<close>

lemma labels_loop_iff:
  "labels_loop ls fl skip \<longleftrightarrow>
     skip \<or> (\<exists>(pk, pv) \<in> set ls. \<exists>fv. fl pk = Some fv \<and> fv \<noteq> pv)"
  by (induction ls fl skip rule: labels_loop.induct) (auto split: option.splits)

lemma feats_loop_iff:
  "feats_loop ls feats skip \<longleftrightarrow>
     skip \<or> (\<exists>feat \<in> set feats. \<exists>(pk, pv) \<in> set ls.
               \<exists>fv. Labels feat pk = Some fv \<and> fv \<noteq> pv)"
proof (induction feats arbitrary: skip)
  case Nil
  show ?case by simp
next
  case (Cons feat feats)
  show ?case
    unfolding feats_loop.simps Cons.IH labels_loop_iff by auto
qed

text \<open>
  C1. Once the inventory, the harness id and the features have been read without error
  (the three early returns of \<open>ShouldSkip\<close>, each returning false), the result is false
  for an empty runtime label filter, and for a non-empty filter it is true exactly when
  some feature has some filter key with a value other than the filter's. A feature that
  lacks the key contributes nothing.
\<close>

theorem ShouldSkip_iff:
  assumes "\<not> HasError (fst (ConfigInventory req))"
    and "\<not> HasError (fst (PlanId req))"
    and "getFeatures (snd (ConfigInventory req)) (snd (PlanId req)) = Inr feats"
  shows "(ls = [] \<longrightarrow> \<not> fst (ShouldSkip getFeatures ls req diags)) \<and>
         (ls \<noteq> [] \<longrightarrow>
            (fst (ShouldSkip getFeatures ls req diags) \<longleftrightarrow>
               (\<exists>feat \<in> set feats. \<exists>(pk, pv) \<in> set ls.
                  \<exists>fv. Labels feat pk = Some fv \<and> fv \<noteq> pv)))"
proof -
  obtain d1 invm where ci: "ConfigInventory req = (d1, invm)"
    by (cases "ConfigInventory req")
  obtain d2 hid where pi: "PlanId req = (d2, hid)"
    by (cases "PlanId req")
  from assms ci pi have ok: "\<not> HasError d1" "\<not> HasError d2" "getFeatures invm hid = Inr feats"
    by simp_all
  have res: "fst (ShouldSkip getFeatures ls req diags) =
               (if length ls = 0 then False else feats_loop ls feats False)"
    by (simp add: ShouldSkip_def ci pi ok Let_def)
  show ?thesis
    unfolding res feats_loop_iff by simp
qed

theorem ShouldSkip_iff_witness:
  "\<not> HasError (fst (ConfigInventory example_req)) \<and>
   \<not> HasError (fst (PlanId example_req)) \<and>
   fst (ShouldSkip (\<lambda>i h. Inr [feature_dev]) [(''env'', ''prod'')] example_req []) \<and>
   \<not> fst (ShouldSkip (\<lambda>i h. Inr [feature_unlabelled]) [(''env'', ''prod'')] example_req []) \<and>
   \<not> fst (ShouldSkip (\<lambda>i h. Inr [feature_dev]) [] example_req [])"
proof -
  have h1: "\<not> HasError (fst (ConfigInventory example_req))"
    and h2: "\<not> HasError (fst (PlanId example_req))"
    by (simp_all add: example_req_def HasError_def)
  have a: "fst (ShouldSkip (\<lambda>i h. Inr [feature_dev]) [(''env'', ''prod'')] example_req [])"
    using ShouldSkip_iff [OF h1 h2, of "\<lambda>i h. Inr [feature_dev]" "[feature_dev]"
        "[(''env'', ''prod'')]" "[]"]
    by (simp add: feature_dev_def)
  have b: "\<not> fst (ShouldSkip (\<lambda>i h. Inr [feature_unlabelled]) [(''env'', ''prod'')]
                    example_req [])"
    using ShouldSkip_iff [OF h1 h2, of "\<lambda>i h. Inr [feature_unlabelled]" "[feature_unlabelled]"
        "[(''env'', ''prod'')]" "[]"]
    by (simp add: feature_unlabelled_def)
  have c: "\<not> fst (ShouldSkip (\<lambda>i h. Inr [feature_dev]) [] example_req [])"
    using ShouldSkip_iff [OF h1 h2, of "\<lambda>i h. Inr [feature_dev]" "[feature_dev]" "[]" "[]"]
    by simp
  show ?thesis using h1 h2 a b c by simp
qed

section \<open>The config builder\<close>

lemma networks_range_eq:
  "networks_range ns acc = acc @ map (\<lambda>(k, v). ValueString (NetworkName v)) ns"
  by (induction ns acc rule: networks_range.induct) auto

lemma map_of_registries_range:
  "distinct (map fst glob) \<Longrightarrow>
   map_of (registries_range glob regs) k =
     (case map_of glob k of Some v \<Rightarrow> Some v | None \<Rightarrow> map_of regs k)"
proof (induction glob regs rule: registries_range.induct)
  case (1 regs)
  show ?case by simp
next
  case (2 k' v rest regs)
  then have nin: "k' \<notin> fst ` set rest" and d: "distinct (map fst rest)"
    by auto
  from nin have none: "map_of rest k' = None"
    by (simp add: map_of_eq_None_iff)
  show ?case
    using "2.IH" [OF d] none
    by (simp add: AList.update_conv' split: option.splits)
qed

lemma Create_CallNew:
  assumes "CallNew hid kopts \<in> set (calls (Create env st req rsp))"
  obtains diags d1 data1 where
    "build_kopts env st ((snd (PlanGet req))\<lparr>Skipped := BoolValue False\<rparr>) diags
       = Inr (d1, kopts, data1)"
  using assms
  by (auto simp: Create_def Create_unskipped_def run_harness_def Let_def BoolValue_def ValueBool_def
           split: sum.splits prod.splits option.splits if_splits)

lemma mounts_loop_no_auth:
  "mounts_loop env ms kopts = Inr kopts' \<Longrightarrow> \<forall>opt \<in> set kopts. \<not> is_auth_option opt \<Longrightarrow>
   \<forall>opt \<in> set kopts'. \<not> is_auth_option opt"
  by (induction env ms kopts rule: mounts_loop.induct) (auto split: sum.splits)

lemma sandbox_networks_loop_no_auth:
  "\<forall>opt \<in> set kopts. \<not> is_auth_option opt \<Longrightarrow>
   \<forall>opt \<in> set (sandbox_networks_loop ns kopts). \<not> is_auth_option opt"
  by (induction ns kopts rule: sandbox_networks_loop.induct) auto

lemma image_step_no_auth:
  "image_step env data diags kopts = Inr kopts' \<Longrightarrow> \<forall>opt \<in> set kopts. \<not> is_auth_option opt \<Longrightarrow>
   \<forall>opt \<in> set kopts'. \<not> is_auth_option opt"
  by (auto simp: image_step_def split: if_splits sum.splits)

lemma sandbox_step_no_auth:
  assumes "sandbox_step env data diags kopts = Inr (d1, kopts')"
    and "\<forall>opt \<in> set kopts. \<not> is_auth_option opt"
  shows "\<forall>opt \<in> set kopts'. \<not> is_auth_option opt"
proof (cases "Sandbox data")
  case None
  with assms show ?thesis by (simp add: sandbox_step_def)
next
  case (Some p)
  obtain ds sb where p: "p = (ds, sb)" by (cases p)
  obtain eds envs where e: "Envs sb = (eds, envs)" by (cases "Envs sb")
  define kopts1 where "kopts1 =
    (if \<not> IsNull (SandboxImage sb)
     then (case ParseReference env (ValueString (SandboxImage sb)) of
             Inl err \<Rightarrow> kopts | Inr ref \<Rightarrow> kopts @ [WithSandboxImageRef ref])
     else kopts)"
  have k1: "\<forall>opt \<in> set kopts1. \<not> is_auth_option opt"
    using assms(2) by (auto simp: kopts1_def split: sum.splits)
  have "\<exists>kopts2. mounts_loop env (Mounts sb) kopts1 = Inr kopts2 \<and>
          kopts' = sandbox_networks_loop (SandboxNetworks sb) kopts2 @ [WithSandboxEnv envs]"
    using assms(1) Some p e
    by (auto simp: sandbox_step_def Let_def kopts1_def split: if_splits sum.splits)
  then obtain kopts2 where k2: "mounts_loop env (Mounts sb) kopts1 = Inr kopts2"
    and k': "kopts' = sandbox_networks_loop (SandboxNetworks sb) kopts2 @ [WithSandboxEnv envs]"
    by blast
  from mounts_loop_no_auth [OF k2 k1]
  have "\<forall>opt \<in> set kopts2. \<not> is_auth_option opt" .
  from sandbox_networks_loop_no_auth [OF this] k' show ?thesis by auto
qed

lemma build_kopts_Inr:
  assumes "build_kopts env st data diags = Inr (d1, kopts, data1)"
  obtains kopts2 kopts3 where
    "\<forall>opt \<in> set kopts2. \<not> is_auth_option opt"
    "registries_loop (fst (merge_provider st data)) kopts2 = Some kopts3"
    "kopts = kopts3 @ [WithNetworks (snd (merge_provider st data))]"
proof -
  from assms obtain kopts1 dg kopts2 kopts3 where
    i: "image_step env data diags
          [WithCniDisabled (ValueBool (DisableCni data)),
           WithTraefikDisabled (ValueBool (DisableTraefik data)),
           WithMetricsServerDisabled (ValueBool (DisableMetricsServer data))] = Inr kopts1"
    and s: "sandbox_step env data diags kopts1 = Inr (dg, kopts2)"
    and r: "registries_loop (fst (merge_provider st data)) kopts2 = Some kopts3"
    and k: "kopts = kopts3 @ [WithNetworks (snd (merge_provider st data))]"
    by (auto simp: build_kopts_def Let_def split: sum.splits prod.splits option.splits)
  have "\<forall>opt \<in> set kopts1. \<not> is_auth_option opt"
    by (rule image_step_no_auth [OF i]) simp
  from sandbox_step_no_auth [OF s this] r k that show ?thesis by blast
qed

lemma auth_option_set:
  "set (auth_option n d kopts) =
     set kopts \<union> (case Auth d of None \<Rightarrow> {}
       | Some a \<Rightarrow> {if IsNull (AuthString a) \<and> IsNull (Password a) \<and> IsNull (Username a) then WithAuthFromKeychain n
                    else WithAuthFromStatic n (ValueString (Username a)) (ValueString (Password a))
                           (ValueString (AuthString a))})"
  by (auto simp: auth_option_def split: option.splits)

lemma registries_loop_auth_set:
  assumes "registries_loop regs kopts = Some kopts'"
  shows "{opt \<in> set kopts'. is_auth_option opt} =
         {opt \<in> set kopts. is_auth_option opt} \<union>
         {opt. \<exists>n d a. (n, d) \<in> set regs \<and> Auth d = Some a \<and>
                 opt = (if IsNull (AuthString a) \<and> IsNull (Password a) \<and> IsNull (Username a) then WithAuthFromKeychain n
                        else WithAuthFromStatic n (ValueString (Username a))
                               (ValueString (Password a)) (ValueString (AuthString a)))}"
  using assms
proof (induction regs arbitrary: kopts)
  case Nil
  then show ?case by simp
next
  case (Cons p rest)
  obtain n d where p: "p = (n, d)" by (cases p)
  have "\<exists>k2. registries_loop rest k2 = Some kopts' \<and>
          {opt \<in> set k2. is_auth_option opt} =
          {opt \<in> set (auth_option n d kopts). is_auth_option opt}"
  proof (cases "Mirror d")
    case None
    with Cons.prems p show ?thesis by (auto simp: Let_def)
  next
    case (Some m)
    obtain ds eps where e: "Endpoints m = (ds, eps)" by (cases "Endpoints m")
    from Cons.prems p Some e
    have "registries_loop rest (auth_option n d kopts @ [WithRegistryMirror n eps]) = Some kopts'"
      by (simp add: Let_def split: if_splits)
    then show ?thesis by (intro exI conjI, assumption) auto
  qed
  then obtain k2 where
    rest: "registries_loop rest k2 = Some kopts'"
    and k2: "{opt \<in> set k2. is_auth_option opt} =
             {opt \<in> set (auth_option n d kopts). is_auth_option opt}"
    by blast
  show ?case
    unfolding Cons.IH [OF rest] k2 auth_option_set p
    by (auto split: option.splits)
qed

lemma merge_provider_Skipped: "merge_provider st (data\<lparr>Skipped := x\<rparr>) = merge_provider st data"
  by (simp add: merge_provider_def)

lemma merge_provider_example:
  "merge_provider merge_store merge_data =
     ([(''a'', registry_Y), (''c'', registry_X), (''b'', registry_Z)], [''n1'', ''n1'', ''n2''])"
  by (simp add: merge_provider_def merge_store_def merge_data_def example_store_def
      example_data_def merge_k3s_def ValueString_def)

lemma Create_merge_example:
  "calls (Create example_env merge_store merge_req example_resp) =
     [CallNew ''h-abc'' merge_kopts, CallSet ''h-abc'' (Handle 0),
      CallSetup (Handle 0) defaultHarnessK3sCreateTimeout]"
  by (simp add: Create_def Create_unskipped_def run_harness_def build_kopts_def
      merge_provider_def image_step_def sandbox_step_def auth_option_def ShouldSkip_def
      merge_store_def merge_data_def merge_req_def merge_k3s_def merge_kopts_def
      registry_X_def registry_Y_def registry_Z_def
      example_env_def example_store_def example_data_def example_req_def example_resp_def
      HasError_def ValueString_def ValueBool_def BoolValue_def IsNull_def Let_def)

text \<open>
  C2. When the provider declares k3s harness configuration, the registries that \<open>Create\<close>
  goes on to use map every key of the provider's registries to the provider's entry, also
  where the resource declares the same key, and every other key to what the resource
  declares for it (nothing, if the resource does not declare it either).
\<close>

theorem registries_global_overwrites:
  assumes "Harnesses (providerResourceData st) = Some hs" and "K3s hs = Some pc"
    and "distinct (map fst (K3sRegistries pc))"
  shows "map_of (fst (merge_provider st data)) k =
           (case map_of (K3sRegistries pc) k of
              Some v \<Rightarrow> Some v
            | None \<Rightarrow> map_of (case Registries data of None \<Rightarrow> [] | Some r \<Rightarrow> r) k)"
  using assms by (simp add: merge_provider_def map_of_registries_range)

theorem registries_global_overwrites_witness:
  "Harnesses (providerResourceData merge_store) = Some \<lparr>K3s = Some merge_k3s\<rparr> \<and>
   distinct (map fst (K3sRegistries merge_k3s)) \<and>
   Registries merge_data = Some [(''a'', registry_X), (''c'', registry_X)] \<and>
   map_of (fst (merge_provider merge_store merge_data)) ''a'' = Some registry_Y \<and>
   map_of (fst (merge_provider merge_store merge_data)) ''b'' = Some registry_Z \<and>
   map_of (fst (merge_provider merge_store merge_data)) ''c'' = Some registry_X"
proof -
  have h: "Harnesses (providerResourceData merge_store) = Some \<lparr>K3s = Some merge_k3s\<rparr>"
    by (simp add: merge_store_def)
  have k: "K3s \<lparr>K3s = Some merge_k3s\<rparr> = Some merge_k3s" by simp
  have d: "distinct (map fst (K3sRegistries merge_k3s))" by (simp add: merge_k3s_def)
  have r: "Registries merge_data = Some [(''a'', registry_X), (''c'', registry_X)]"
    by (simp add: merge_data_def)
  show ?thesis
    using registries_global_overwrites [OF h k d, of merge_data "''a''"]
      registries_global_overwrites [OF h k d, of merge_data "''b''"]
      registries_global_overwrites [OF h k d, of merge_data "''c''"] h d r
    by (simp add: merge_k3s_def)
qed

text \<open>
  C3. Whenever \<open>Create\<close> calls \<open>k3s.New\<close>, the last option it passes is \<open>WithNetworks\<close>
  of the resource's network names, in the order the resource's map yields them, followed by
  the provider's network names, in the order the provider's map yields them. Nothing is
  removed: a name that occurs on both sides occurs twice.
\<close>

theorem Create_networks:
  assumes "CallNew hid kopts \<in> set (calls (Create env st req rsp))"
  shows "kopts \<noteq> [] \<and> last kopts = WithNetworks
           (map (\<lambda>(k, v). ValueString (NetworkName v))
              (case Networks (snd (PlanGet req)) of None \<Rightarrow> [] | Some ns \<Rightarrow> ns) @
            (case Harnesses (providerResourceData st) of
               None \<Rightarrow> []
             | Some hs \<Rightarrow>
                 (case K3s hs of
                    None \<Rightarrow> []
                  | Some pc \<Rightarrow> map (\<lambda>(k, v). ValueString (NetworkName v)) (K3sNetworks pc))))"
proof -
  from assms obtain diags d1 data1 where
    b: "build_kopts env st ((snd (PlanGet req))\<lparr>Skipped := BoolValue False\<rparr>) diags
          = Inr (d1, kopts, data1)"
    by (rule Create_CallNew)
  from b obtain kopts3 where
    k: "kopts = kopts3 @ [WithNetworks (snd (merge_provider st (snd (PlanGet req))))]"
    by (rule build_kopts_Inr) (simp add: merge_provider_Skipped)
  show ?thesis
    unfolding k
    by (simp add: merge_provider_def networks_range_eq split: option.splits)
qed

theorem Create_networks_witness:
  "CallNew ''h-abc'' merge_kopts \<in> set (calls (Create example_env merge_store merge_req example_resp)) \<and>
   Networks (snd (PlanGet merge_req)) = Some [(''net'', \<lparr>NetworkName = Some ''n1''\<rparr>)] \<and>
   K3sNetworks merge_k3s = [(''x'', \<lparr>NetworkName = Some ''n1''\<rparr>), (''y'', \<lparr>NetworkName = Some ''n2''\<rparr>)] \<and>
   last merge_kopts = WithNetworks [''n1'', ''n1'', ''n2'']"
proof -
  have c: "CallNew ''h-abc'' merge_kopts
             \<in> set (calls (Create example_env merge_store merge_req example_resp))"
    by (simp add: Create_merge_example)
  from Create_networks [OF c] c show ?thesis
    by (simp add: merge_req_def merge_data_def merge_k3s_def merge_store_def example_store_def
        ValueString_def)
qed

text \<open>
  C5. Whenever \<open>Create\<close> calls \<open>k3s.New\<close>, every merged registry with an \<open>Auth\<close> block
  contributes one credentials option: \<open>WithAuthFromKeychain\<close> of the registry name when
  username, password and auth string are all null, and otherwise \<open>WithAuthFromStatic\<close>
  of the registry name and the three fields as they are (a null field is the empty
  string). The options hold no other credentials option.
\<close>

theorem Create_registry_auth:
  assumes "CallNew hid kopts \<in> set (calls (Create env st req rsp))"
  shows "(\<forall>(rname, rdata) \<in> set (fst (merge_provider st (snd (PlanGet req)))). \<forall>a.
            Auth rdata = Some a \<longrightarrow>
              (if IsNull (AuthString a) \<and> IsNull (Password a) \<and> IsNull (Username a)
               then WithAuthFromKeychain rname
               else WithAuthFromStatic rname (ValueString (Username a))
                      (ValueString (Password a)) (ValueString (AuthString a))) \<in> set kopts) \<and>
         (\<forall>opt \<in> set kopts. is_auth_option opt \<longrightarrow>
            (\<exists>(rname, rdata) \<in> set (fst (merge_provider st (snd (PlanGet req)))). \<exists>a.
               Auth rdata = Some a \<and>
               opt = (if IsNull (AuthString a) \<and> IsNull (Password a) \<and> IsNull (Username a)
                      then WithAuthFromKeychain rname
                      else WithAuthFromStatic rname (ValueString (Username a))
                             (ValueString (Password a)) (ValueString (AuthString a)))))"
proof -
  let ?regs = "fst (merge_provider st (snd (PlanGet req)))"
  from assms obtain diags d1 data1 where
    b: "build_kopts env st ((snd (PlanGet req))\<lparr>Skipped := BoolValue False\<rparr>) diags
          = Inr (d1, kopts, data1)"
    by (rule Create_CallNew)
  from b obtain kopts2 kopts3 where
    na: "\<forall>opt \<in> set kopts2. \<not> is_auth_option opt"
    and r: "registries_loop ?regs kopts2 = Some kopts3"
    and k: "kopts = kopts3 @ [WithNetworks (snd (merge_provider st (snd (PlanGet req))))]"
    by (rule build_kopts_Inr) (simp_all add: merge_provider_Skipped)
  from na have e: "{opt \<in> set kopts2. is_auth_option opt} = {}" by auto
  have s: "{opt \<in> set kopts. is_auth_option opt} = {opt \<in> set kopts3. is_auth_option opt}"
    unfolding k by auto
  note eq = registries_loop_auth_set [OF r, unfolded e, folded s]
  show ?thesis
  proof (intro conjI ballI allI impI)
    fix p a assume "p \<in> set ?regs"
    then show "case p of (rname, rdata) \<Rightarrow> \<forall>a. Auth rdata = Some a \<longrightarrow>
              (if IsNull (AuthString a) \<and> IsNull (Password a) \<and> IsNull (Username a)
               then WithAuthFromKeychain rname
               else WithAuthFromStatic rname (ValueString (Username a))
                      (ValueString (Password a)) (ValueString (AuthString a))) \<in> set kopts"
      using eq by (cases p) (auto split: if_splits)
  next
    fix opt assume "opt \<in> set kopts" "is_auth_option opt"
    then have "opt \<in> {opt \<in> set kopts. is_auth_option opt}" by simp
    then show "\<exists>(rname, rdata) \<in> set ?regs. \<exists>a.
               Auth rdata = Some a \<and>
               opt = (if IsNull (AuthString a) \<and> IsNull (Password a) \<and> IsNull (Username a)
                      then WithAuthFromKeychain rname
                      else WithAuthFromStatic rname (ValueString (Username a))
                             (ValueString (Password a)) (ValueString (AuthString a)))"
      unfolding eq by blast
  qed
qed

theorem Create_registry_auth_witness:
  "CallNew ''h-abc'' merge_kopts \<in> set (calls (Create example_env merge_store merge_req example_resp)) \<and>
   fst (merge_provider merge_store (snd (PlanGet merge_req))) =
     [(''a'', registry_Y), (''c'', registry_X), (''b'', registry_Z)] \<and>
   WithAuthFromStatic ''a'' ''u'' [] [] \<in> set merge_kopts \<and>
   WithAuthFromKeychain ''c'' \<in> set merge_kopts \<and>
   {opt \<in> set merge_kopts. is_auth_option opt} =
     {WithAuthFromStatic ''a'' ''u'' [] [], WithAuthFromKeychain ''c''}"
proof -
  have c: "CallNew ''h-abc'' merge_kopts
             \<in> set (calls (Create example_env merge_store merge_req example_resp))"
    by (simp add: Create_merge_example)
  have m: "fst (merge_provider merge_store (snd (PlanGet merge_req))) =
             [(''a'', registry_Y), (''c'', registry_X), (''b'', registry_Z)]"
    by (simp add: merge_req_def merge_provider_example)
  have a: "WithAuthFromStatic ''a'' ''u'' [] [] \<in> set merge_kopts \<and>
           WithAuthFromKeychain ''c'' \<in> set merge_kopts"
    using Create_registry_auth [OF c]
    unfolding m by (simp add: registry_X_def registry_Y_def IsNull_def ValueString_def)
  have s: "{opt \<in> set merge_kopts. is_auth_option opt} =
             {WithAuthFromStatic ''a'' ''u'' [] [], WithAuthFromKeychain ''c''}"
    by (auto simp: merge_kopts_def)
  from c m a s show ?thesis by simp
qed

section \<open>Planning and the inventory\<close>

lemma ModifyPlan_PlanIdAttr:
  assumes "StateRawIsNull req"
    and "\<not> HasError (fst (PlanConfigInventory req))"
    and "\<not> HasError (fst (ConfigName req))"
    and "encode (ValueString (Seed (snd (PlanConfigInventory req)))) = Inr e"
    and "\<not> HasError (setAttribute (harness_id (snd (ConfigName req)) e))"
  shows "PlanIdAttr (fst (ModifyPlan encode setAttribute addHarness invState req rsp))
           = Some (snd (ConfigName req) @ ''-'' @ e)"
proof -
  obtain d1 invm where ci: "PlanConfigInventory req = (d1, invm)"
    by (cases "PlanConfigInventory req")
  obtain d2 name where cn: "ConfigName req = (d2, name)"
    by (cases "ConfigName req")
  obtain added err invState1 where
    ah: "addHarness invState invm (harness_id name e) = ((added, err), invState1)"
    by (cases "addHarness invState invm (harness_id name e)") auto
  from assms ci cn ah show ?thesis
    by (simp add: ModifyPlan_def Let_def harness_id_def split: option.splits)
qed

text \<open>
  C4. When the prior state is null, inventory and name are read without error, the seed
  encodes to \<open>e\<close> and the plan accepts the attribute, the planned id is the name, a hyphen
  and \<open>e\<close>: a function of the name and the encoded seed alone. Two plans of the same name
  whose seeds encode differently have different ids, and two whose seeds encode alike have
  the same id.
\<close>

theorem ModifyPlan_id:
  assumes "StateRawIsNull req1" and "StateRawIsNull req2"
    and "\<not> HasError (fst (PlanConfigInventory req1))"
    and "\<not> HasError (fst (PlanConfigInventory req2))"
    and "\<not> HasError (fst (ConfigName req1))" and "\<not> HasError (fst (ConfigName req2))"
    and "encode (ValueString (Seed (snd (PlanConfigInventory req1)))) = Inr e1"
    and "encode (ValueString (Seed (snd (PlanConfigInventory req2)))) = Inr e2"
    and "\<not> HasError (setAttribute (harness_id (snd (ConfigName req1)) e1))"
    and "\<not> HasError (setAttribute (harness_id (snd (ConfigName req2)) e2))"
    and "snd (ConfigName req1) = n" and "snd (ConfigName req2) = n"
  shows "PlanIdAttr (fst (ModifyPlan encode setAttribute addHarness s1 req1 rsp1))
           = Some (n @ ''-'' @ e1) \<and>
         PlanIdAttr (fst (ModifyPlan encode setAttribute addHarness s2 req2 rsp2))
           = Some (n @ ''-'' @ e2) \<and>
         (PlanIdAttr (fst (ModifyPlan encode setAttribute addHarness s1 req1 rsp1)) =
          PlanIdAttr (fst (ModifyPlan encode setAttribute addHarness s2 req2 rsp2))
            \<longleftrightarrow> e1 = e2)"
proof -
  have 1: "PlanIdAttr (fst (ModifyPlan encode setAttribute addHarness s1 req1 rsp1))
             = Some (n @ ''-'' @ e1)"
    using ModifyPlan_PlanIdAttr [of req1 encode e1 setAttribute addHarness s1 rsp1] assms
    by simp
  have 2: "PlanIdAttr (fst (ModifyPlan encode setAttribute addHarness s2 req2 rsp2))
             = Some (n @ ''-'' @ e2)"
    using ModifyPlan_PlanIdAttr [of req2 encode e2 setAttribute addHarness s2 rsp2] assms
    by simp
  show ?thesis unfolding 1 2 by simp
qed

theorem ModifyPlan_id_witness:
  "StateRawIsNull example_plan_req \<and>
   example_encode ''seed'' = Inr ''dees'' \<and> example_encode ''tree'' = Inr ''eert'' \<and>
   PlanIdAttr (fst (ModifyPlan example_encode (\<lambda>hid. []) AddHarness example_inventory
                      example_plan_req example_plan_resp)) = Some ''h-dees'' \<and>
   PlanIdAttr (fst (ModifyPlan example_encode (\<lambda>hid. []) AddHarness example_inventory
                      (example_plan_req\<lparr>PlanConfigInventory := ([], \<lparr>Seed = Some ''tree''\<rparr>)\<rparr>)
                      example_plan_resp)) = Some ''h-eert''"
proof -
  let ?req2 = "example_plan_req\<lparr>PlanConfigInventory := ([], \<lparr>Seed = Some ''tree''\<rparr>)\<rparr>"
  have e1: "example_encode (ValueString (Seed (snd (PlanConfigInventory example_plan_req))))
              = Inr ''dees''"
    by (simp add: example_plan_req_def example_encode_def ValueString_def)
  have e2: "example_encode (ValueString (Seed (snd (PlanConfigInventory ?req2)))) = Inr ''eert''"
    by (simp add: example_encode_def ValueString_def)
  have n: "\<not> HasError []" by (simp add: HasError_def)
  show ?thesis
    using ModifyPlan_id [of example_plan_req ?req2 example_encode "''dees''" "''eert''"
        "\<lambda>hid. []" "''h''" AddHarness example_inventory example_plan_resp
        example_inventory example_plan_resp] e1 e2 n
    by (simp add: example_plan_req_def example_encode_def)
qed

lemma AddHarness_error: "snd (fst (AddHarness s invm h)) = Fault s"
  by (simp add: AddHarness_def Let_def split: option.splits)

lemma AddHarness_again:
  "Fault s = None \<Longrightarrow> AddHarness (snd (AddHarness s invm h)) invm h
     = ((False, None), snd (AddHarness s invm h))"
  by (simp add: AddHarness_def Let_def split: option.splits)

text \<open>
  What lines 88 to 96 of \<open>ModifyPlan\<close> make of it: planning the same harness a second
  time, on the inventory the first plan left, changes neither the inventory nor the
  diagnostics and logs nothing; only the first plan logs that the harness was added.
\<close>

lemma ModifyPlan_twice:
  assumes "StateRawIsNull req"
    and "\<not> HasError (fst (PlanConfigInventory req))"
    and "\<not> HasError (fst (ConfigName req))"
    and "encode (ValueString (Seed (snd (PlanConfigInventory req)))) = Inr e"
    and "\<not> HasError (setAttribute (harness_id (snd (ConfigName req)) e))"
    and "Fault s = None"
    and "ModifyPlan encode setAttribute AddHarness s req rsp = (rsp1, s1, log1)"
    and "ModifyPlan encode setAttribute AddHarness s1 req rsp = (rsp2, s2, log2)"
  shows "s2 = s1 \<and> log2 = [] \<and> PlanDiagnostics rsp2 = PlanDiagnostics rsp \<and>
         PlanDiagnostics rsp1 = PlanDiagnostics rsp \<and>
         (log1 = [] \<longleftrightarrow>
            Entries s (ValueString (Seed (snd (PlanConfigInventory req))))
              (harness_id (snd (ConfigName req)) e) \<noteq> None)"
proof -
  obtain d1 invm where ci: "PlanConfigInventory req = (d1, invm)"
    by (cases "PlanConfigInventory req")
  obtain d2 name where cn: "ConfigName req = (d2, name)"
    by (cases "ConfigName req")
  let ?h = "harness_id name e"
  have first: "ModifyPlan encode setAttribute AddHarness s req rsp =
          (rsp\<lparr>PlanIdAttr := Some ?h\<rparr>, snd (AddHarness s invm ?h),
           if fst (fst (AddHarness s invm ?h))
           then [''Harness.ModifyPlan() | harness ['' @ ?h @ ''] added to inventory'']
           else [])"
    using assms(1-6) ci cn
    by (simp add: ModifyPlan_def Let_def AddHarness_def split: option.splits)
  with assms(7) have s1: "s1 = snd (AddHarness s invm ?h)" by simp
  have f1: "Fault s1 = None"
    using assms(6) unfolding s1 by (simp add: AddHarness_def Let_def split: option.splits)
  have second: "ModifyPlan encode setAttribute AddHarness s1 req rsp =
          (rsp\<lparr>PlanIdAttr := Some ?h\<rparr>, s1, [])"
    using assms(1-5) ci cn f1 AddHarness_again [OF assms(6), of invm ?h]
    unfolding s1
    by (simp add: ModifyPlan_def Let_def)
  from first second assms(6,7,8) ci cn show ?thesis
    by (auto simp: AddHarness_def Let_def split: option.splits if_splits)
qed

text \<open>
  C9. On an inventory whose backing store does not fail and that does not hold the
  harness yet, the first \<open>AddHarness\<close> reports \<open>added = true\<close> and the second, on the
  inventory the first one left, reports \<open>added = false\<close>, both without an error; the
  second call leaves the inventory as it is, so \<open>GetFeatures\<close> answers every query as
  before. The error that \<open>AddHarness\<close> returns is the backing store's, whatever the
  inventory holds.
\<close>

theorem AddHarness_idempotent:
  assumes "Fault s = None" and "Entries s (ValueString (Seed invm)) h = None"
  shows "fst (AddHarness s invm h) = (True, None) \<and>
         fst (AddHarness (snd (AddHarness s invm h)) invm h) = (False, None) \<and>
         snd (AddHarness (snd (AddHarness s invm h)) invm h) = snd (AddHarness s invm h) \<and>
         GetFeatures_of (snd (AddHarness (snd (AddHarness s invm h)) invm h))
           = GetFeatures_of (snd (AddHarness s invm h)) \<and>
         (\<forall>s' invm' h'. snd (fst (AddHarness s' invm' h')) = Fault s')"
proof -
  have 1: "fst (AddHarness s invm h) = (True, None)"
    using assms by (simp add: AddHarness_def Let_def)
  note 2 = AddHarness_again [OF assms(1), of invm h]
  show ?thesis
    unfolding 2 using 1 by (simp add: AddHarness_error)
qed

theorem AddHarness_idempotent_witness:
  "Fault example_inventory = None \<and>
   Entries example_inventory (ValueString (Seed \<lparr>Seed = Some ''seed''\<rparr>)) ''h-dees'' = None \<and>
   fst (AddHarness example_inventory \<lparr>Seed = Some ''seed''\<rparr> ''h-dees'') = (True, None) \<and>
   fst (AddHarness (snd (AddHarness example_inventory \<lparr>Seed = Some ''seed''\<rparr> ''h-dees''))
          \<lparr>Seed = Some ''seed''\<rparr> ''h-dees'') = (False, None)"
proof -
  have f: "Fault example_inventory = None"
    and e: "Entries example_inventory (ValueString (Seed \<lparr>Seed = Some ''seed''\<rparr>)) ''h-dees'' = None"
    by (simp_all add: example_inventory_def)
  from AddHarness_idempotent [OF f e] f e show ?thesis by simp
qed

section \<open>The create phase\<close>

lemma ShouldSkip_True_HasError:
  "fst (ShouldSkip gf ls req diags) \<Longrightarrow>
   HasError (snd (ShouldSkip gf ls req diags)) = HasError diags"
  by (auto simp: ShouldSkip_def Let_def HasError_AddWarning split: prod.splits sum.splits if_splits)

text \<open>
  C6. When the plan decodes without error and \<open>ShouldSkip\<close> returns true, \<open>Create\<close> calls
  neither \<open>k3s.New\<close> nor the registry's \<open>Set\<close> nor \<open>Setup\<close>, leaves the store as it is,
  and hands the plan data with \<open>Skipped\<close> set to true to \<open>State.Set\<close>: that is the
  persisted state, unless \<open>State.Set\<close> itself reports an error.
\<close>

theorem Create_skipped:
  assumes "\<not> HasError (Append (Diagnostics rsp) (fst (PlanGet req)))"
    and "fst (ShouldSkip (GetFeatures env) (labels st) req
                (Append (Diagnostics rsp) (fst (PlanGet req))))"
  shows "calls (Create env st req rsp) = [] \<and>
         store (Create env st req rsp) = st \<and>
         State (resp (Create env st req rsp)) =
           (if HasError (StateSet env ((snd (PlanGet req))\<lparr>Skipped := Some True\<rparr>))
            then State rsp
            else Some ((snd (PlanGet req))\<lparr>Skipped := Some True\<rparr>))"
proof -
  obtain pds data0 where pg: "PlanGet req = (pds, data0)" by (cases "PlanGet req")
  let ?d0 = "Append (Diagnostics rsp) pds"
  obtain sd where ss: "ShouldSkip (GetFeatures env) (labels st) req ?d0 = (True, sd)"
    using assms(2) pg by (cases "ShouldSkip (GetFeatures env) (labels st) req ?d0") auto
  have "HasError sd = HasError ?d0"
    using ShouldSkip_True_HasError [of "GetFeatures env" "labels st" req ?d0] ss by simp
  with assms(1) pg have ne: "\<not> HasError sd" by simp
  show ?thesis
    using assms(1) pg ss ne
    by (simp add: Create_def Let_def BoolValue_def ValueBool_def)
qed

theorem Create_skipped_witness:
  "\<not> HasError (Append (Diagnostics example_resp) (fst (PlanGet example_req))) \<and>
   fst (ShouldSkip (GetFeatures skip_env) (labels skip_store) example_req
          (Append (Diagnostics example_resp) (fst (PlanGet example_req)))) \<and>
   calls (Create skip_env skip_store example_req example_resp) = [] \<and>
   store (Create skip_env skip_store example_req example_resp) = skip_store \<and>
   State (resp (Create skip_env skip_store example_req example_resp)) =
     Some (example_data\<lparr>Skipped := Some True\<rparr>)"
proof -
  have a: "\<not> HasError (Append (Diagnostics example_resp) (fst (PlanGet example_req)))"
    by (simp add: example_resp_def example_req_def HasError_def)
  have b: "fst (ShouldSkip (GetFeatures skip_env) (labels skip_store) example_req
                  (Append (Diagnostics example_resp) (fst (PlanGet example_req))))"
    by (simp add: ShouldSkip_def skip_env_def skip_store_def example_env_def example_store_def
        example_req_def example_resp_def feature_dev_def HasError_def Let_def)
  from Create_skipped [OF a b] a b show ?thesis
    by (simp add: skip_env_def example_env_def example_req_def HasError_def)
qed

lemma build_kopts_data:
  assumes "build_kopts env st data diags = Inr (d1, kopts, data1)"
  shows "Id_attr data1 = Id_attr data \<and> Timeouts data1 = Timeouts data"
  using assms
  by (auto simp: build_kopts_def Let_def split: sum.splits prod.splits option.splits)

lemma Create_calls_cases:
  "calls (Create env st req rsp) = [] \<and> store (Create env st req rsp) = st \<or>
   (\<exists>rsp2 diags1 kopts data1.
      Create env st req rsp =
        run_harness env st rsp2 (fst (Timeouts (snd (PlanGet req)) defaultHarnessK3sCreateTimeout))
          diags1 kopts data1 \<and>
      State rsp2 = State rsp \<and> Id_attr data1 = Id_attr (snd (PlanGet req)))"
proof -
  obtain pds data0 where pg: "PlanGet req = (pds, data0)" by (cases "PlanGet req")
  let ?d0 = "Append (Diagnostics rsp) pds"
  obtain skipped sd where ss: "ShouldSkip (GetFeatures env) (labels st) req ?d0 = (skipped, sd)"
    by (cases "ShouldSkip (GetFeatures env) (labels st) req ?d0")
  let ?data = "data0\<lparr>Skipped := BoolValue skipped\<rparr>"
  let ?rsp2 = "rsp\<lparr>Diagnostics := sd\<rparr>"
  obtain timeout tds where tm: "Timeouts data0 defaultHarnessK3sCreateTimeout = (timeout, tds)"
    by (cases "Timeouts data0 defaultHarnessK3sCreateTimeout")
  show ?thesis
  proof (cases "HasError ?d0 \<or> HasError sd \<or> skipped")
    case True
    then show ?thesis
      using pg ss by (auto simp: Create_def Let_def BoolValue_def ValueBool_def)
  next
    case False
    then have c: "Create env st req rsp = Create_unskipped env st ?data ?rsp2"
      using pg ss by (simp add: Create_def Let_def BoolValue_def ValueBool_def)
    show ?thesis
    proof (cases "build_kopts env st ?data (Append sd tds)")
      case (Inl r)
      then show ?thesis
        unfolding c using tm by (simp add: Create_unskipped_def Let_def)
    next
      case (Inr t)
      obtain d1 kopts data1 where t: "t = (d1, kopts, data1)" by (cases t)
      from build_kopts_data [OF Inr [unfolded t]]
      have "Id_attr data1 = Id_attr data0" by simp
      then show ?thesis
        unfolding c using tm Inr t pg
        by (intro disjI2 exI [of _ ?rsp2] exI [of _ d1] exI [of _ kopts] exI [of _ data1])
           (simp add: Create_unskipped_def Let_def)
    qed
  qed
qed

text \<open>
  C7. When \<open>Create\<close> has invoked \<open>Setup\<close> and \<open>Setup\<close> returns an error, an expired
  deadline among them, the response holds the error under the title
  \<open>failed to setup harness\<close>, the state is the one \<open>Create\<close> started with, and the
  registry maps the harness id to the handle: the calls were \<open>k3s.New\<close>, \<open>Set\<close> and
  \<open>Setup\<close> in this order and nothing takes the handle out again. The timeout handed to
  \<open>Setup\<close> is the one resolved from the resource's timeouts with the default of five
  minutes.
\<close>

theorem Create_setup_failure:
  assumes "CallSetup harness timeout \<in> set (calls (Create env st req rsp))"
    and "Setup env harness timeout = Some err"
  shows "Diagnostic SeverityError ''failed to setup harness'' err
           \<in> set (Diagnostics (resp (Create env st req rsp))) \<and>
         HasError (Diagnostics (resp (Create env st req rsp))) \<and>
         State (resp (Create env st req rsp)) = State rsp \<and>
         harnesses (store (Create env st req rsp))
           (ValueString (Id_attr (snd (PlanGet req)))) = Some harness \<and>
         (\<exists>kopts. calls (Create env st req rsp) =
            [CallNew (ValueString (Id_attr (snd (PlanGet req)))) kopts,
             CallSet (ValueString (Id_attr (snd (PlanGet req)))) harness,
             CallSetup harness timeout]) \<and>
         timeout = fst (Timeouts (snd (PlanGet req)) defaultHarnessK3sCreateTimeout) \<and>
         defaultHarnessK3sCreateTimeout = 5 * 60 * 1000000000"
proof -
  from Create_calls_cases [of env st req rsp] assms(1)
  obtain rsp2 diags1 kopts data1 where
    c: "Create env st req rsp =
          run_harness env st rsp2 (fst (Timeouts (snd (PlanGet req)) defaultHarnessK3sCreateTimeout))
            diags1 kopts data1"
    and s: "State rsp2 = State rsp" and i: "Id_attr data1 = Id_attr (snd (PlanGet req))"
    by auto
  let ?hid = "ValueString (Id_attr (snd (PlanGet req)))"
  let ?t = "fst (Timeouts (snd (PlanGet req)) defaultHarnessK3sCreateTimeout)"
  from assms(1) obtain h where n: "k3s_New env ?hid kopts = Inr h"
    unfolding c by (cases "k3s_New env ?hid kopts") (auto simp: run_harness_def Let_def i)
  from assms(1) n have ht: "harness = h \<and> timeout = ?t"
    unfolding c by (auto simp: run_harness_def Let_def i split: option.splits)
  with assms(2) have se: "Setup env h ?t = Some err" by simp
  have out: "Create env st req rsp =
      \<lparr>resp = rsp2\<lparr>Diagnostics := AddError diags1 ''failed to setup harness'' err\<rparr>,
       store = st\<lparr>harnesses := (harnesses st)(?hid \<mapsto> h)\<rparr>,
       calls = [CallNew ?hid kopts, CallSet ?hid h, CallSetup h ?t]\<rparr>"
    unfolding c by (simp add: run_harness_def Let_def i n se)
  show ?thesis
    unfolding out using ht s
    by (simp add: AddError_mem HasError_AddError defaultHarnessK3sCreateTimeout_def Minute_def)
qed

theorem Create_setup_failure_witness:
  "CallSetup (Handle 0) (5 * 60 * 1000000000)
     \<in> set (calls (Create deadline_env example_store example_req example_resp)) \<and>
   Setup deadline_env (Handle 0) (5 * 60 * 1000000000) = Some ''context deadline exceeded'' \<and>
   Diagnostic SeverityError ''failed to setup harness'' ''context deadline exceeded''
     \<in> set (Diagnostics (resp (Create deadline_env example_store example_req example_resp))) \<and>
   State (resp (Create deadline_env example_store example_req example_resp)) = None \<and>
   harnesses (store (Create deadline_env example_store example_req example_resp)) ''h-abc''
     = Some (Handle 0)"
proof -
  have c: "calls (Create deadline_env example_store example_req example_resp) =
             [CallNew ''h-abc'' [WithCniDisabled False, WithTraefikDisabled True,
                                 WithMetricsServerDisabled True, WithNetworks []],
              CallSet ''h-abc'' (Handle 0), CallSetup (Handle 0) (5 * 60 * 1000000000)]"
    by (simp add: Create_def Create_unskipped_def run_harness_def build_kopts_def
        merge_provider_def image_step_def sandbox_step_def ShouldSkip_def
        deadline_env_def example_env_def example_store_def example_data_def example_req_def
        example_resp_def defaultHarnessK3sCreateTimeout_def Minute_def
        HasError_def ValueString_def ValueBool_def BoolValue_def IsNull_def Let_def)
  have m: "CallSetup (Handle 0) (5 * 60 * 1000000000)
             \<in> set (calls (Create deadline_env example_store example_req example_resp))"
    unfolding c by simp
  have s: "Setup deadline_env (Handle 0) (5 * 60 * 1000000000) = Some ''context deadline exceeded''"
    by (simp add: deadline_env_def)
  from Create_setup_failure [OF m s] m s show ?thesis
    by (simp add: example_req_def example_data_def example_resp_def ValueString_def)
qed

lemma Create_reach:
  assumes "\<not> HasError (Append (Diagnostics rsp) (fst (PlanGet req)))"
    and "ShouldSkip (GetFeatures env) (labels st) req
           (Append (Diagnostics rsp) (fst (PlanGet req))) = (False, sd)"
    and "\<not> HasError sd"
  shows "Create env st req rsp =
           Create_unskipped env st ((snd (PlanGet req))\<lparr>Skipped := Some False\<rparr>)
             (rsp\<lparr>Diagnostics := sd\<rparr>)"
  using assms
  by (cases "PlanGet req") (simp add: Create_def Let_def BoolValue_def ValueBool_def)

lemma mounts_loop_Inl:
  assumes "m \<in> set ms" and "filepath_Abs env (ValueString (Source m)) = Inl e"
  shows "\<exists>m' e'. m' \<in> set ms \<and> filepath_Abs env (ValueString (Source m')) = Inl e' \<and>
           mounts_loop env ms kopts = Inl e'"
  using assms
proof (induction ms arbitrary: kopts)
  case Nil
  then show ?case by simp
next
  case (Cons a ms)
  show ?case
  proof (cases "filepath_Abs env (ValueString (Source a))")
    case (Inl e')
    then show ?thesis by (intro exI [of _ a] exI [of _ e']) simp
  next
    case (Inr src)
    with Cons.prems have "m \<in> set ms" by auto
    from Cons.IH [OF this Cons.prems(2)] Inr show ?thesis by fastforce
  qed
qed

lemma unskipped_image:
  assumes "\<not> IsNull (Image_attr data)"
    and "ParseReference env (ValueString (Image_attr data)) = Inl err"
  shows "Create_unskipped env st data rsp2 =
           \<lparr>resp = rsp2\<lparr>Diagnostics :=
                     AddError (Append (Diagnostics rsp2)
                                 (snd (Timeouts data defaultHarnessK3sCreateTimeout)))
                       ''invalid resource input'' (''invalid image reference: '' @ err)\<rparr>,
            store = st, calls = []\<rparr>"
  using assms
  by (cases "Timeouts data defaultHarnessK3sCreateTimeout")
     (simp add: Create_unskipped_def build_kopts_def image_step_def Let_def)

lemma unskipped_sandbox_image:
  assumes "IsNull (Image_attr data) \<or>
           (\<exists>r. ParseReference env (ValueString (Image_attr data)) = Inr r)"
    and "Sandbox data = Some (ds, sb)"
    and "\<not> HasError (Append (Append (Diagnostics rsp2)
                        (snd (Timeouts data defaultHarnessK3sCreateTimeout))) ds)"
    and "\<not> IsNull (SandboxImage sb)"
    and "ParseReference env (ValueString (SandboxImage sb)) = Inl err"
  shows "Create_unskipped env st data rsp2 =
           \<lparr>resp = rsp2\<lparr>Diagnostics :=
                     AddError (Append (Append (Diagnostics rsp2)
                                 (snd (Timeouts data defaultHarnessK3sCreateTimeout))) ds)
                       ''invalid resource input''
                       (''invalid sandbox image reference: '' @ err)\<rparr>,
            store = st, calls = []\<rparr>"
  using assms
  by (cases "Timeouts data defaultHarnessK3sCreateTimeout")
     (auto simp: Create_unskipped_def build_kopts_def image_step_def sandbox_step_def Let_def)

lemma unskipped_mount:
  assumes "IsNull (Image_attr data) \<or>
           (\<exists>r. ParseReference env (ValueString (Image_attr data)) = Inr r)"
    and "Sandbox data = Some (ds, sb)"
    and "\<not> HasError (Append (Append (Diagnostics rsp2)
                        (snd (Timeouts data defaultHarnessK3sCreateTimeout))) ds)"
    and "IsNull (SandboxImage sb) \<or>
         (\<exists>r. ParseReference env (ValueString (SandboxImage sb)) = Inr r)"
    and "m \<in> set (Mounts sb)" and "filepath_Abs env (ValueString (Source m)) = Inl e"
  shows "\<exists>m' e'. m' \<in> set (Mounts sb) \<and>
           filepath_Abs env (ValueString (Source m')) = Inl e' \<and>
           Create_unskipped env st data rsp2 =
             \<lparr>resp = rsp2\<lparr>Diagnostics :=
                       AddError (Append (Append (Diagnostics rsp2)
                                   (snd (Timeouts data defaultHarnessK3sCreateTimeout))) ds)
                         ''invalid resource input'' (''invalid mount source: '' @ e')\<rparr>,
              store = st, calls = []\<rparr>"
proof -
  obtain timeout tds where tm: "Timeouts data defaultHarnessK3sCreateTimeout = (timeout, tds)"
    by (cases "Timeouts data defaultHarnessK3sCreateTimeout")
  let ?k0 = "[WithCniDisabled (ValueBool (DisableCni data)),
              WithTraefikDisabled (ValueBool (DisableTraefik data)),
              WithMetricsServerDisabled (ValueBool (DisableMetricsServer data))]"
  have "\<exists>k1. image_step env data (Append (Diagnostics rsp2) tds) ?k0 = Inr k1"
    using assms(1) by (cases "IsNull (Image_attr data)") (auto simp: image_step_def)
  then obtain k1 where i: "image_step env data (Append (Diagnostics rsp2) tds) ?k0 = Inr k1"
    by blast
  have "\<exists>k2.
         (if \<not> IsNull (SandboxImage sb)
          then (case ParseReference env (ValueString (SandboxImage sb)) of
                  Inl err \<Rightarrow> Inl (AddError (Append (Append (Diagnostics rsp2) tds) ds)
                                     ''invalid resource input''
                                     (''invalid sandbox image reference: '' @ err))
                | Inr ref \<Rightarrow> Inr (k1 @ [WithSandboxImageRef ref]))
          else Inr k1) = Inr k2"
    using assms(4) by (cases "IsNull (SandboxImage sb)") auto
  then obtain k2 where
    si: "(if \<not> IsNull (SandboxImage sb)
          then (case ParseReference env (ValueString (SandboxImage sb)) of
                  Inl err \<Rightarrow> Inl (AddError (Append (Append (Diagnostics rsp2) tds) ds)
                                     ''invalid resource input''
                                     (''invalid sandbox image reference: '' @ err))
                | Inr ref \<Rightarrow> Inr (k1 @ [WithSandboxImageRef ref]))
          else Inr k1) = Inr k2"
    by blast
  from mounts_loop_Inl [OF assms(5,6), of k2] obtain m' e' where
    m': "m' \<in> set (Mounts sb)" "filepath_Abs env (ValueString (Source m')) = Inl e'"
    and ml: "mounts_loop env (Mounts sb) k2 = Inl e'"
    by blast
  have "sandbox_step env data (Append (Diagnostics rsp2) tds) k1 =
          Inl (AddError (Append (Append (Diagnostics rsp2) tds) ds)
                 ''invalid resource input'' (''invalid mount source: '' @ e'))"
    using assms(2,3) tm si ml
    by (simp add: sandbox_step_def Let_def del: if_not_P if_P)
  with i tm have "Create_unskipped env st data rsp2 =
             \<lparr>resp = rsp2\<lparr>Diagnostics :=
                       AddError (Append (Append (Diagnostics rsp2) tds) ds)
                         ''invalid resource input'' (''invalid mount source: '' @ e')\<rparr>,
              store = st, calls = []\<rparr>"
    by (simp add: Create_unskipped_def build_kopts_def Let_def)
  with m' tm show ?thesis by auto
qed

text \<open>
  C8. Let \<open>Create\<close> have decoded the plan and found the harness not skipped. A harness
  image reference that does not parse; or, with a sandbox that decodes while the response
  holds no error, a sandbox image reference that does not parse; or, with such a sandbox,
  a mount source that \<open>filepath.Abs\<close> rejects: each puts an error titled
  \<open>invalid resource input\<close> into the response and ends \<open>Create\<close> with the state and the
  store as they were and without a call to \<open>k3s.New\<close>, \<open>Set\<close> or \<open>Setup\<close>. The detail
  names the first input that fails, in the order image, sandbox image, mounts.
\<close>

theorem Create_invalid_input:
  assumes "\<not> HasError (Append (Diagnostics rsp) (fst (PlanGet req)))"
    and "ShouldSkip (GetFeatures env) (labels st) req
           (Append (Diagnostics rsp) (fst (PlanGet req))) = (False, sd)"
    and "\<not> HasError sd"
    and "snd (PlanGet req) = data"
    and "snd (Timeouts data defaultHarnessK3sCreateTimeout) = tds"
  shows "(\<not> IsNull (Image_attr data) \<and>
          ParseReference env (ValueString (Image_attr data)) = Inl err \<longrightarrow>
            Diagnostic SeverityError ''invalid resource input''
              (''invalid image reference: '' @ err)
              \<in> set (Diagnostics (resp (Create env st req rsp))) \<and>
            State (resp (Create env st req rsp)) = State rsp \<and>
            store (Create env st req rsp) = st \<and> calls (Create env st req rsp) = []) \<and>
         ((IsNull (Image_attr data) \<or>
             (\<exists>r. ParseReference env (ValueString (Image_attr data)) = Inr r)) \<and>
          Sandbox data = Some (ds, sb) \<and> \<not> HasError (Append (Append sd tds) ds) \<and>
          \<not> IsNull (SandboxImage sb) \<and>
          ParseReference env (ValueString (SandboxImage sb)) = Inl err \<longrightarrow>
            Diagnostic SeverityError ''invalid resource input''
              (''invalid sandbox image reference: '' @ err)
              \<in> set (Diagnostics (resp (Create env st req rsp))) \<and>
            State (resp (Create env st req rsp)) = State rsp \<and>
            store (Create env st req rsp) = st \<and> calls (Create env st req rsp) = []) \<and>
         ((IsNull (Image_attr data) \<or>
             (\<exists>r. ParseReference env (ValueString (Image_attr data)) = Inr r)) \<and>
          Sandbox data = Some (ds, sb) \<and> \<not> HasError (Append (Append sd tds) ds) \<and>
          (IsNull (SandboxImage sb) \<or>
             (\<exists>r. ParseReference env (ValueString (SandboxImage sb)) = Inr r)) \<and>
          m \<in> set (Mounts sb) \<and> filepath_Abs env (ValueString (Source m)) = Inl err \<longrightarrow>
            (\<exists>m' e'. m' \<in> set (Mounts sb) \<and>
               filepath_Abs env (ValueString (Source m')) = Inl e' \<and>
               Diagnostic SeverityError ''invalid resource input''
                 (''invalid mount source: '' @ e')
                 \<in> set (Diagnostics (resp (Create env st req rsp)))) \<and>
            State (resp (Create env st req rsp)) = State rsp \<and>
            store (Create env st req rsp) = st \<and> calls (Create env st req rsp) = [])"
proof -
  let ?data = "data\<lparr>Skipped := Some False\<rparr>"
  let ?rsp2 = "rsp\<lparr>Diagnostics := sd\<rparr>"
  have c: "Create env st req rsp = Create_unskipped env st ?data ?rsp2"
    using Create_reach [OF assms(1-3)] assms(4) by simp
  have t: "snd (Timeouts ?data defaultHarnessK3sCreateTimeout) = tds"
    using assms(5) by simp
  have A: "(\<not> IsNull (Image_attr data)) \<and>
          (ParseReference env (ValueString (Image_attr data)) = Inl err) \<longrightarrow>
          Diagnostic SeverityError ''invalid resource input''
              (''invalid image reference: '' @ err)
              \<in> set (Diagnostics (resp (Create env st req rsp))) \<and>
            State (resp (Create env st req rsp)) = State rsp \<and>
            store (Create env st req rsp) = st \<and> calls (Create env st req rsp) = []"
  proof (rule impI, elim conjE)
    assume "\<not> IsNull (Image_attr data)"
      and "ParseReference env (ValueString (Image_attr data)) = Inl err"
    then have "Create_unskipped env st ?data ?rsp2 =
           \<lparr>resp = ?rsp2\<lparr>Diagnostics :=
                     AddError (Append (Diagnostics ?rsp2) tds)
                       ''invalid resource input'' (''invalid image reference: '' @ err)\<rparr>,
            store = st, calls = []\<rparr>"
      using unskipped_image [of ?data env err st ?rsp2] t by simp
    then show "Diagnostic SeverityError ''invalid resource input''
              (''invalid image reference: '' @ err)
              \<in> set (Diagnostics (resp (Create env st req rsp))) \<and>
            State (resp (Create env st req rsp)) = State rsp \<and>
            store (Create env st req rsp) = st \<and> calls (Create env st req rsp) = []"
      unfolding c by (simp add: AddError_mem)
  qed
  have B: "(IsNull (Image_attr data) \<or>
             (\<exists>r. ParseReference env (ValueString (Image_attr data)) = Inr r)) \<and>
          (Sandbox data = Some (ds, sb)) \<and>
          (\<not> HasError (Append (Append sd tds) ds)) \<and>
          (\<not> IsNull (SandboxImage sb)) \<and>
          (ParseReference env (ValueString (SandboxImage sb)) = Inl err) \<longrightarrow>
          Diagnostic SeverityError ''invalid resource input''
              (''invalid sandbox image reference: '' @ err)
              \<in> set (Diagnostics (resp (Create env st req rsp))) \<and>
            State (resp (Create env st req rsp)) = State rsp \<and>
            store (Create env st req rsp) = st \<and> calls (Create env st req rsp) = []"
  proof (rule impI, elim conjE)
    assume "IsNull (Image_attr data) \<or>
             (\<exists>r. ParseReference env (ValueString (Image_attr data)) = Inr r)"
      and "Sandbox data = Some (ds, sb)" and "\<not> HasError (Append (Append sd tds) ds)"
      and "\<not> IsNull (SandboxImage sb)"
      and "ParseReference env (ValueString (SandboxImage sb)) = Inl err"
    then have "Create_unskipped env st ?data ?rsp2 =
           \<lparr>resp = ?rsp2\<lparr>Diagnostics :=
                     AddError (Append (Append (Diagnostics ?rsp2) tds) ds)
                       ''invalid resource input''
                       (''invalid sandbox image reference: '' @ err)\<rparr>,
            store = st, calls = []\<rparr>"
      using unskipped_sandbox_image [of ?data env ds sb ?rsp2 err st] t by simp
    then show "Diagnostic SeverityError ''invalid resource input''
              (''invalid sandbox image reference: '' @ err)
              \<in> set (Diagnostics (resp (Create env st req rsp))) \<and>
            State (resp (Create env st req rsp)) = State rsp \<and>
            store (Create env st req rsp) = st \<and> calls (Create env st req rsp) = []"
      unfolding c by (simp add: AddError_mem)
  qed
  have C: "(IsNull (Image_attr data) \<or>
             (\<exists>r. ParseReference env (ValueString (Image_attr data)) = Inr r)) \<and>
          (Sandbox data = Some (ds, sb)) \<and>
          (\<not> HasError (Append (Append sd tds) ds)) \<and>
          (IsNull (SandboxImage sb) \<or>
             (\<exists>r. ParseReference env (ValueString (SandboxImage sb)) = Inr r)) \<and>
          (m \<in> set (Mounts sb)) \<and>
          (filepath_Abs env (ValueString (Source m)) = Inl err) \<longrightarrow>
          (\<exists>m' e'. m' \<in> set (Mounts sb) \<and>
               filepath_Abs env (ValueString (Source m')) = Inl e' \<and>
               Diagnostic SeverityError ''invalid resource input''
                 (''invalid mount source: '' @ e')
                 \<in> set (Diagnostics (resp (Create env st req rsp)))) \<and>
            State (resp (Create env st req rsp)) = State rsp \<and>
            store (Create env st req rsp) = st \<and> calls (Create env st req rsp) = []"
  proof (rule impI, elim conjE)
    assume "IsNull (Image_attr data) \<or>
             (\<exists>r. ParseReference env (ValueString (Image_attr data)) = Inr r)"
      and "Sandbox data = Some (ds, sb)" and "\<not> HasError (Append (Append sd tds) ds)"
      and "IsNull (SandboxImage sb) \<or>
             (\<exists>r. ParseReference env (ValueString (SandboxImage sb)) = Inr r)"
      and "m \<in> set (Mounts sb)" and "filepath_Abs env (ValueString (Source m)) = Inl err"
    then have "\<exists>m' e'. m' \<in> set (Mounts sb) \<and>
           filepath_Abs env (ValueString (Source m')) = Inl e' \<and>
           Create_unskipped env st ?data ?rsp2 =
             \<lparr>resp = ?rsp2\<lparr>Diagnostics :=
                       AddError (Append (Append (Diagnostics ?rsp2) tds) ds)
                         ''invalid resource input'' (''invalid mount source: '' @ e')\<rparr>,
              store = st, calls = []\<rparr>"
      using unskipped_mount [of ?data env ds sb ?rsp2 m err st] t by simp
    then obtain m' e' where "m' \<in> set (Mounts sb)"
      "filepath_Abs env (ValueString (Source m')) = Inl e'"
      "Create_unskipped env st ?data ?rsp2 =
             \<lparr>resp = ?rsp2\<lparr>Diagnostics :=
                       AddError (Append (Append (Diagnostics ?rsp2) tds) ds)
                         ''invalid resource input'' (''invalid mount source: '' @ e')\<rparr>,
              store = st, calls = []\<rparr>"
      by blast
    then show "(\<exists>m' e'. m' \<in> set (Mounts sb) \<and>
               filepath_Abs env (ValueString (Source m')) = Inl e' \<and>
               Diagnostic SeverityError ''invalid resource input''
                 (''invalid mount source: '' @ e')
                 \<in> set (Diagnostics (resp (Create env st req rsp)))) \<and>
            State (resp (Create env st req rsp)) = State rsp \<and>
            store (Create env st req rsp) = st \<and> calls (Create env st req rsp) = []"
      unfolding c by (auto simp: AddError_mem)
  qed
  from A B C show ?thesis by blast
qed

lemma example_not_skipped:
  "ShouldSkip (GetFeatures example_env) (labels example_store)
     (example_req\<lparr>PlanGet := pg\<rparr>) (Append (Diagnostics example_resp) []) = (False, [])"
  "ShouldSkip (GetFeatures no_cwd_env) (labels example_store)
     (example_req\<lparr>PlanGet := pg\<rparr>) (Append (Diagnostics example_resp) []) = (False, [])"
  by (simp_all add: ShouldSkip_def example_env_def no_cwd_env_def example_store_def
      example_req_def example_resp_def HasError_def)

lemma example_no_error:
  "\<not> HasError (Append (Diagnostics example_resp) [])" "\<not> HasError []"
  by (simp_all add: example_resp_def HasError_def)

theorem Create_invalid_input_witness:
  "Diagnostic SeverityError ''invalid resource input'' ''invalid image reference: empty reference''
     \<in> set (Diagnostics (resp (Create example_env example_store bad_image_req example_resp))) \<and>
   calls (Create example_env example_store bad_image_req example_resp) = [] \<and>
   Diagnostic SeverityError ''invalid resource input''
       ''invalid sandbox image reference: empty reference''
     \<in> set (Diagnostics (resp (Create example_env example_store bad_sandbox_image_req
                                   example_resp))) \<and>
   calls (Create example_env example_store bad_sandbox_image_req example_resp) = [] \<and>
   Diagnostic SeverityError ''invalid resource input''
       ''invalid mount source: getwd: no such file or directory''
     \<in> set (Diagnostics (resp (Create no_cwd_env example_store sandbox_req example_resp))) \<and>
   calls (Create no_cwd_env example_store sandbox_req example_resp) = []"
proof -
  have a: "Diagnostic SeverityError ''invalid resource input''
             ''invalid image reference: empty reference''
             \<in> set (Diagnostics (resp (Create example_env example_store bad_image_req
                                           example_resp))) \<and>
           calls (Create example_env example_store bad_image_req example_resp) = []"
    using Create_invalid_input [of example_resp bad_image_req example_env example_store "[]"
        "example_data\<lparr>Image_attr := Some []\<rparr>" "[]" "''empty reference''"]
      example_not_skipped(1) [of "([], example_data\<lparr>Image_attr := Some []\<rparr>)"]
      example_no_error
    by (simp add: bad_image_req_def example_data_def example_env_def IsNull_def ValueString_def)
  have b: "Diagnostic SeverityError ''invalid resource input''
             ''invalid sandbox image reference: empty reference''
             \<in> set (Diagnostics (resp (Create example_env example_store bad_sandbox_image_req
                                           example_resp))) \<and>
           calls (Create example_env example_store bad_sandbox_image_req example_resp) = []"
    using Create_invalid_input [of example_resp bad_sandbox_image_req example_env example_store
        "[]" "example_data\<lparr>Sandbox := Some ([], example_sandbox\<lparr>SandboxImage := Some []\<rparr>)\<rparr>"
        "[]" "''empty reference''" "[]" "example_sandbox\<lparr>SandboxImage := Some []\<rparr>"]
      example_not_skipped(1)
        [of "([], example_data\<lparr>Sandbox := Some ([], example_sandbox\<lparr>SandboxImage := Some []\<rparr>)\<rparr>)"]
      example_no_error
    by (simp add: bad_sandbox_image_req_def example_data_def example_env_def example_sandbox_def
        IsNull_def ValueString_def HasError_def)
  have c: "Diagnostic SeverityError ''invalid resource input''
             ''invalid mount source: getwd: no such file or directory''
             \<in> set (Diagnostics (resp (Create no_cwd_env example_store sandbox_req
                                           example_resp))) \<and>
           calls (Create no_cwd_env example_store sandbox_req example_resp) = []"
    using Create_invalid_input [of example_resp sandbox_req no_cwd_env example_store "[]"
        "example_data\<lparr>Sandbox := Some ([], example_sandbox)\<rparr>" "[]"
        "''getwd: no such file or directory''" "[]" example_sandbox
        "\<lparr>Source = Some ''data'', Destination = Some ''/data''\<rparr>"]
      example_not_skipped(2) [of "([], example_data\<lparr>Sandbox := Some ([], example_sandbox)\<rparr>)"]
      example_no_error
    by (simp add: sandbox_req_def example_data_def example_env_def no_cwd_env_def
        example_sandbox_def IsNull_def ValueString_def HasError_def)
  from a b c show ?thesis by simp
qed

lemma ShouldSkip_PlanGet:
  "ShouldSkip gf ls (req\<lparr>PlanGet := pg\<rparr>) diags = ShouldSkip gf ls req diags"
  by (simp add: ShouldSkip_def cong: if_cong)

lemma build_kopts_Inl_HasError:
  assumes "build_kopts env st data diags = Inl r"
  shows "HasError r"
proof (cases "image_step env data diags
                [WithCniDisabled (ValueBool (DisableCni data)),
                 WithTraefikDisabled (ValueBool (DisableTraefik data)),
                 WithMetricsServerDisabled (ValueBool (DisableMetricsServer data))]")
  case (Inl a)
  with assms have "r = a" by (simp add: build_kopts_def)
  with Inl show ?thesis
    by (auto simp: image_step_def HasError_AddError split: if_splits sum.splits)
next
  case (Inr k1)
  show ?thesis
  proof (cases "sandbox_step env data diags k1")
    case (Inl a)
    with Inr assms have ra: "r = a" by (simp add: build_kopts_def)
    from Inl show ?thesis
      unfolding ra
      by (auto simp: sandbox_step_def Let_def HasError_AddError
               split: option.splits prod.splits if_splits sum.splits)
  next
    case (Inr p)
    obtain d1 k2 where p: "p = (d1, k2)" by (cases p)
    from assms \<open>image_step env data diags _ = Inr k1\<close> Inr p
    show ?thesis
      by (auto simp: build_kopts_def Let_def HasError_AddError
               split: prod.splits option.splits)
  qed
qed

lemma sandbox_step_HasError:
  assumes "HasError diags"
  shows "case sandbox_step env data diags kopts of
           Inl r \<Rightarrow> Sandbox data \<noteq> None
         | Inr (d1, k) \<Rightarrow> Sandbox data = None \<and> d1 = diags \<and> k = kopts"
  using assms
  by (auto simp: sandbox_step_def Let_def HasError_Append split: option.splits)

lemma build_kopts_HasError:
  assumes "HasError diags"
  shows "case build_kopts env st data diags of
           Inl r \<Rightarrow> True
         | Inr (d1, k, data1) \<Rightarrow> Sandbox data = None \<and> d1 = diags"
proof (cases "build_kopts env st data diags")
  case (Inl a)
  then show ?thesis by simp
next
  case (Inr t)
  obtain d1 k data1 where t: "t = (d1, k, data1)" by (cases t)
  from Inr t obtain k1 d' k2 where
    s: "sandbox_step env data diags k1 = Inr (d', k2)" and d: "d1 = d'"
    by (auto simp: build_kopts_def Let_def split: sum.splits prod.splits option.splits)
  from sandbox_step_HasError [OF assms, where env=env and data=data and kopts=k1] s d
  show ?thesis using Inr t by simp
qed

lemma run_harness_HasError:
  "HasError diags \<Longrightarrow> HasError (Diagnostics (resp (run_harness env st rsp t diags kopts data)))"
  by (auto simp: run_harness_def Let_def HasError_AddError HasError_Append
           split: sum.splits option.splits)

lemma run_harness_State:
  "calls (run_harness env st rsp t diags kopts data) \<noteq> []"
  by (auto simp: run_harness_def Let_def split: sum.splits option.splits)

lemma Create_unskipped_timeout_error:
  assumes "HasError (snd (Timeouts data defaultHarnessK3sCreateTimeout))"
  shows "HasError (Diagnostics (resp (Create_unskipped env st data rsp2))) \<and>
         (Sandbox data \<noteq> None \<longrightarrow>
            calls (Create_unskipped env st data rsp2) = [] \<and>
            store (Create_unskipped env st data rsp2) = st \<and>
            State (resp (Create_unskipped env st data rsp2)) = State rsp2)"
proof -
  obtain timeout tds where tm: "Timeouts data defaultHarnessK3sCreateTimeout = (timeout, tds)"
    by (cases "Timeouts data defaultHarnessK3sCreateTimeout")
  with assms have e: "HasError (Append (Diagnostics rsp2) tds)"
    by (simp add: HasError_Append)
  show ?thesis
  proof (cases "build_kopts env st data (Append (Diagnostics rsp2) tds)")
    case (Inl r)
    from build_kopts_Inl_HasError [OF Inl] Inl tm show ?thesis
      by (simp add: Create_unskipped_def Let_def)
  next
    case (Inr t)
    obtain d1 k data1 where t: "t = (d1, k, data1)" by (cases t)
    from build_kopts_HasError [OF e, where env=env and st=st and data=data] Inr t
    have n: "Sandbox data = None" and d: "d1 = Append (Diagnostics rsp2) tds" by simp_all
    have "HasError (Diagnostics (resp (run_harness env st rsp2 timeout d1 k data1)))"
      using e d by (simp add: run_harness_HasError)
    with n Inr t tm show ?thesis by (simp add: Create_unskipped_def Let_def)
  qed
qed

lemma merge_provider_Timeouts:
  "merge_provider st (data\<lparr>Timeouts := f\<rparr>) = merge_provider st data"
  by (simp add: merge_provider_def)

lemma image_step_Timeouts:
  "map_sum (\<lambda>r. ()) id (image_step env (data\<lparr>Timeouts := f\<rparr>) diags' kopts)
     = map_sum (\<lambda>r. ()) id (image_step env data diags kopts)"
  by (simp add: image_step_def split: sum.splits)

lemma build_kopts_no_sandbox:
  assumes "Sandbox data = None"
  shows "map_sum (\<lambda>r. ()) (\<lambda>(d1, k, data1). (k, Id_attr data1))
           (build_kopts env st (data\<lparr>Timeouts := f\<rparr>) diags')
         = map_sum (\<lambda>r. ()) (\<lambda>(d1, k, data1). (k, Id_attr data1))
           (build_kopts env st data diags)"
proof -
  let ?k0 = "[WithCniDisabled (ValueBool (DisableCni data)),
              WithTraefikDisabled (ValueBool (DisableTraefik data)),
              WithMetricsServerDisabled (ValueBool (DisableMetricsServer data))]"
  have s: "\<And>dat dg k. Sandbox dat = None \<Longrightarrow> sandbox_step env dat dg k = Inr (dg, k)"
    by (simp add: sandbox_step_def)
  obtain regs nets where m: "merge_provider st data = (regs, nets)"
    by (cases "merge_provider st data")
  show ?thesis
  proof (cases "image_step env data diags ?k0")
    case (Inl a)
    with image_step_Timeouts [where env=env and data=data and f=f and diags'=diags' and kopts="?k0" and diags=diags]
    obtain a' where "image_step env (data\<lparr>Timeouts := f\<rparr>) diags' ?k0 = Inl a'"
      by (cases "image_step env (data\<lparr>Timeouts := f\<rparr>) diags' ?k0") auto
    with Inl show ?thesis by (simp add: build_kopts_def)
  next
    case (Inr k1)
    with image_step_Timeouts [where env=env and data=data and f=f and diags'=diags' and kopts="?k0" and diags=diags]
    have i': "image_step env (data\<lparr>Timeouts := f\<rparr>) diags' ?k0 = Inr k1"
      by (cases "image_step env (data\<lparr>Timeouts := f\<rparr>) diags' ?k0") auto
    show ?thesis
      using Inr i' assms m
      by (cases "registries_loop regs k1")
         (simp_all add: build_kopts_def s merge_provider_Timeouts Let_def split: option.splits)
  qed
qed

lemma run_harness_calls_store:
  assumes "Id_attr data1 = Id_attr data2"
  shows "calls (run_harness env st rsp t d k data1) = calls (run_harness env st rsp' t d' k data2) \<and>
         store (run_harness env st rsp t d k data1) = store (run_harness env st rsp' t d' k data2)"
  using assms
  by (simp add: run_harness_def Let_def split: sum.splits option.splits)

lemma Create_unskipped_no_sandbox:
  assumes "Sandbox data = None"
  shows "calls (Create_unskipped env st
                  (data\<lparr>Timeouts := (\<lambda>d. (fst (Timeouts data d), []))\<rparr>) rsp2)
           = calls (Create_unskipped env st data rsp2) \<and>
         store (Create_unskipped env st
                  (data\<lparr>Timeouts := (\<lambda>d. (fst (Timeouts data d), []))\<rparr>) rsp2)
           = store (Create_unskipped env st data rsp2)"
proof -
  let ?f = "\<lambda>d. (fst (Timeouts data d), [])"
  let ?data' = "data\<lparr>Timeouts := ?f\<rparr>"
  obtain timeout tds where tm: "Timeouts data defaultHarnessK3sCreateTimeout = (timeout, tds)"
    by (cases "Timeouts data defaultHarnessK3sCreateTimeout")
  let ?dg = "Append (Diagnostics rsp2) tds"
  let ?dg' = "Append (Diagnostics rsp2) []"
  note eq = build_kopts_no_sandbox [OF assms, where env=env and st=st and f="?f" and diags'="?dg'" and diags="?dg"]
  show ?thesis
  proof (cases "build_kopts env st data ?dg")
    case (Inl a)
    with eq obtain a' where "build_kopts env st ?data' ?dg' = Inl a'"
      by (cases "build_kopts env st ?data' ?dg'") auto
    with Inl tm show ?thesis by (simp add: Create_unskipped_def Let_def)
  next
    case (Inr p)
    obtain d1 k data1 where p: "p = (d1, k, data1)" by (cases p)
    from eq Inr p obtain d2 data2 where
      b': "build_kopts env st ?data' ?dg' = Inr (d2, k, data2)"
      and i: "Id_attr data2 = Id_attr data1"
      by (cases "build_kopts env st ?data' ?dg'") auto
    from run_harness_calls_store [OF i, where env=env and st=st and rsp=rsp2 and t=timeout and d=d2 and k=k and rsp'=rsp2 and d'=d1] Inr p b' tm
    show ?thesis by (simp add: Create_unskipped_def Let_def)
  qed
qed

lemma Timeouts_Skipped_commute:
  "(d\<lparr>Timeouts := f\<rparr>)\<lparr>Skipped := x\<rparr> = (d\<lparr>Skipped := x\<rparr>)\<lparr>Timeouts := f\<rparr>"
  for d :: HarnessK3sResourceModel
  by (cases d) simp

lemma Create_plain_example:
  "calls (Create example_env example_store (example_req\<lparr>PlanGet := ([], example_data\<lparr>Timeouts := tm\<rparr>)\<rparr>)
            example_resp) =
     [CallNew ''h-abc'' [WithCniDisabled False, WithTraefikDisabled True,
                         WithMetricsServerDisabled True, WithNetworks []],
      CallSet ''h-abc'' (Handle 0),
      CallSetup (Handle 0) (fst (tm defaultHarnessK3sCreateTimeout))]"
  by (cases "tm defaultHarnessK3sCreateTimeout")
     (simp add: Create_def Create_unskipped_def run_harness_def build_kopts_def
        merge_provider_def image_step_def sandbox_step_def ShouldSkip_def
        example_env_def example_store_def example_data_def example_req_def example_resp_def
        HasError_def ValueString_def ValueBool_def BoolValue_def IsNull_def Let_def)

lemma Create_sandbox_example:
  "calls (Create example_env example_store sandbox_req example_resp) =
     [CallNew ''h-abc'' sandbox_kopts, CallSet ''h-abc'' (Handle 0),
      CallSetup (Handle 0) defaultHarnessK3sCreateTimeout]"
  by (simp add: Create_def Create_unskipped_def run_harness_def build_kopts_def
      merge_provider_def image_step_def sandbox_step_def ShouldSkip_def
      sandbox_req_def example_sandbox_def sandbox_kopts_def
      example_env_def example_store_def example_data_def example_req_def example_resp_def
      HasError_def ValueString_def ValueBool_def BoolValue_def IsNull_def Let_def)

lemma Create_bad_timeouts_sandbox_example:
  "Create example_env example_store bad_timeouts_sandbox_req example_resp =
     \<lparr>resp = \<lparr>Diagnostics = [Diagnostic SeverityError ''Timeout Cannot Be Parsed'' ''create''],
              State = None\<rparr>,
      store = example_store, calls = []\<rparr>"
  by (simp add: Create_def Create_unskipped_def build_kopts_def
      image_step_def sandbox_step_def ShouldSkip_def
      bad_timeouts_sandbox_req_def bad_timeouts_def example_sandbox_def
      example_env_def example_store_def example_data_def example_req_def example_resp_def
      HasError_def ValueString_def ValueBool_def BoolValue_def IsNull_def Let_def)

text \<open>
  C10, as stated, fails. With a sandbox declared and every input valid, \<open>Create\<close> reaches
  \<open>k3s.New\<close>, \<open>Set\<close> and \<open>Setup\<close> when the timeout resolves without diagnostics; when the
  resolution reports an error, the same request ends at the check of the response's
  diagnostics after \<open>Sandbox.As\<close>: no call is made and the registry has no entry.
\<close>

theorem Create_timeout_error_counterexample:
  "HasError (snd (Timeouts (snd (PlanGet bad_timeouts_sandbox_req))
                    defaultHarnessK3sCreateTimeout)) \<and>
   calls (Create example_env example_store bad_timeouts_sandbox_req example_resp) = [] \<and>
   harnesses (store (Create example_env example_store bad_timeouts_sandbox_req example_resp))
     ''h-abc'' = None \<and>
   calls (Create example_env example_store sandbox_req example_resp) =
     [CallNew ''h-abc'' sandbox_kopts, CallSet ''h-abc'' (Handle 0),
      CallSetup (Handle 0) defaultHarnessK3sCreateTimeout]"
  by (simp add: Create_bad_timeouts_sandbox_example Create_sandbox_example)
     (simp add: bad_timeouts_sandbox_req_def bad_timeouts_def example_store_def HasError_def)

text \<open>
  C10, amended. Let \<open>Create\<close> have decoded the plan and found the harness not skipped, and
  let the resolution of the create timeout report an error. \<open>Create\<close> does not return at
  that point, and its response holds an error when it returns. Without a sandbox no check
  of the diagnostics follows: the calls to \<open>k3s.New\<close>, \<open>Set\<close> and \<open>Setup\<close> and the
  resulting store are those of the same request with the timeout diagnostics left out.
  With a sandbox, \<open>Create\<close> returns before any of these calls, with the store and the
  state as they were.
\<close>

theorem Create_timeout_error:
  assumes "\<not> HasError (Append (Diagnostics rsp) (fst (PlanGet req)))"
    and "ShouldSkip (GetFeatures env) (labels st) req
           (Append (Diagnostics rsp) (fst (PlanGet req))) = (False, sd)"
    and "\<not> HasError sd"
    and "HasError (snd (Timeouts (snd (PlanGet req)) defaultHarnessK3sCreateTimeout))"
  shows "HasError (Diagnostics (resp (Create env st req rsp))) \<and>
         (Sandbox (snd (PlanGet req)) \<noteq> None \<longrightarrow>
            calls (Create env st req rsp) = [] \<and>
            store (Create env st req rsp) = st \<and>
            State (resp (Create env st req rsp)) = State rsp) \<and>
         (Sandbox (snd (PlanGet req)) = None \<longrightarrow>
            calls (Create env st req rsp) =
              calls (Create env st (without_timeout_diagnostics req) rsp) \<and>
            store (Create env st req rsp) =
              store (Create env st (without_timeout_diagnostics req) rsp))"
proof -
  let ?data0 = "snd (PlanGet req)"
  let ?data = "?data0\<lparr>Skipped := Some False\<rparr>"
  let ?rsp2 = "rsp\<lparr>Diagnostics := sd\<rparr>"
  let ?req' = "without_timeout_diagnostics req"
  have c: "Create env st req rsp = Create_unskipped env st ?data ?rsp2"
    by (rule Create_reach [OF assms(1-3)])
  have e: "HasError (snd (Timeouts ?data defaultHarnessK3sCreateTimeout))"
    using assms(4) by simp
  note 1 = Create_unskipped_timeout_error [OF e, where env=env and st=st and ?rsp2.0="?rsp2"]
  have r1: "\<not> HasError (Append (Diagnostics rsp) (fst (PlanGet ?req')))"
    using assms(1) by (simp add: without_timeout_diagnostics_def)
  have r2: "ShouldSkip (GetFeatures env) (labels st) ?req'
              (Append (Diagnostics rsp) (fst (PlanGet ?req'))) = (False, sd)"
    using assms(2) by (simp add: without_timeout_diagnostics_def ShouldSkip_PlanGet)
  have c': "Create env st ?req' rsp =
              Create_unskipped env st
                (?data\<lparr>Timeouts := (\<lambda>d. (fst (Timeouts ?data d), []))\<rparr>) ?rsp2"
    using Create_reach [OF r1 r2 assms(3)]
    by (simp add: without_timeout_diagnostics_def Timeouts_Skipped_commute)
  have 2: "Sandbox ?data0 = None \<longrightarrow>
             calls (Create env st req rsp) = calls (Create env st ?req' rsp) \<and>
             store (Create env st req rsp) = store (Create env st ?req' rsp)"
  proof
    assume "Sandbox ?data0 = None"
    then have "Sandbox ?data = None" by simp
    from Create_unskipped_no_sandbox [OF this, where env=env and st=st and ?rsp2.0="?rsp2"]
    show "calls (Create env st req rsp) = calls (Create env st ?req' rsp) \<and>
          store (Create env st req rsp) = store (Create env st ?req' rsp)"
      unfolding c c' by simp
  qed
  from 1 2 show ?thesis unfolding c by simp
qed

theorem Create_timeout_error_witness:
  "HasError (snd (Timeouts (snd (PlanGet bad_timeouts_req)) defaultHarnessK3sCreateTimeout)) \<and>
   Sandbox (snd (PlanGet bad_timeouts_req)) = None \<and>
   calls (Create example_env example_store bad_timeouts_req example_resp) =
     [CallNew ''h-abc'' [WithCniDisabled False, WithTraefikDisabled True,
                         WithMetricsServerDisabled True, WithNetworks []],
      CallSet ''h-abc'' (Handle 0), CallSetup (Handle 0) defaultHarnessK3sCreateTimeout] \<and>
   HasError (Diagnostics (resp (Create example_env example_store bad_timeouts_req
                                 example_resp))) \<and>
   Sandbox (snd (PlanGet bad_timeouts_sandbox_req)) \<noteq> None \<and>
   calls (Create example_env example_store bad_timeouts_sandbox_req example_resp) = []"
proof -
  have h1: "HasError (snd (Timeouts (snd (PlanGet bad_timeouts_req))
                             defaultHarnessK3sCreateTimeout))"
    and h2: "HasError (snd (Timeouts (snd (PlanGet bad_timeouts_sandbox_req))
                             defaultHarnessK3sCreateTimeout))"
    by (simp_all add: bad_timeouts_req_def bad_timeouts_sandbox_req_def bad_timeouts_def
        HasError_def)
  have n1: "Sandbox (snd (PlanGet bad_timeouts_req)) = None"
    and n2: "Sandbox (snd (PlanGet bad_timeouts_sandbox_req)) \<noteq> None"
    by (simp_all add: bad_timeouts_req_def bad_timeouts_sandbox_req_def example_data_def)
  have p1: "\<not> HasError (Append (Diagnostics example_resp) (fst (PlanGet bad_timeouts_req)))"
    and p2: "\<not> HasError (Append (Diagnostics example_resp)
                            (fst (PlanGet bad_timeouts_sandbox_req)))"
    by (simp_all add: bad_timeouts_req_def bad_timeouts_sandbox_req_def example_resp_def
        HasError_def)
  have s1: "ShouldSkip (GetFeatures example_env) (labels example_store) bad_timeouts_req
              (Append (Diagnostics example_resp) (fst (PlanGet bad_timeouts_req))) = (False, [])"
    and s2: "ShouldSkip (GetFeatures example_env) (labels example_store) bad_timeouts_sandbox_req
              (Append (Diagnostics example_resp) (fst (PlanGet bad_timeouts_sandbox_req)))
               = (False, [])"
    using example_not_skipped(1)
    by (simp_all add: bad_timeouts_req_def bad_timeouts_sandbox_req_def)
  have q: "calls (Create example_env example_store (without_timeout_diagnostics bad_timeouts_req)
                    example_resp) =
             [CallNew ''h-abc'' [WithCniDisabled False, WithTraefikDisabled True,
                                 WithMetricsServerDisabled True, WithNetworks []],
              CallSet ''h-abc'' (Handle 0), CallSetup (Handle 0) defaultHarnessK3sCreateTimeout]"
    using Create_plain_example
      [of "\<lambda>d. (fst (Timeouts (example_data\<lparr>Timeouts := bad_timeouts\<rparr>) d), [])"]
    by (simp add: without_timeout_diagnostics_def bad_timeouts_req_def bad_timeouts_def)
  from Create_timeout_error [OF p1 s1 example_no_error(2) h1]
    Create_timeout_error [OF p2 s2 example_no_error(2) h2] h1 n1 n2 q
  show ?thesis by simp
qed

end
